theory Spec2Isabelle
  imports Complex_Main
begin

section \<open>JavaScript numbers\<close>

text \<open>
  The analytics code computes with JavaScript \<^verbatim>\<open>number\<close>s. They are modelled as the
  extended reals with a not-a-number value: a finite number is an exact real, so the
  rounding of IEEE doubles and the sign of zero are not modelled (every zero divisor the
  code can produce is a positive zero). What is modelled is the part of the arithmetic
  the code relies on or falls into: \<^verbatim>\<open>NaN\<close> is absorbing, comparisons with
  \<^verbatim>\<open>NaN\<close> are false, a division by zero gives an infinity or \<^verbatim>\<open>NaN\<close>, and
  the square root of a negative number is \<^verbatim>\<open>NaN\<close>. Nothing in this arithmetic raises.
\<close>

datatype jsnum = NaN | PInf | NInf | Fin real

fun js_neg :: "jsnum \<Rightarrow> jsnum" where
  "js_neg NaN = NaN"
| "js_neg PInf = NInf"
| "js_neg NInf = PInf"
| "js_neg (Fin a) = Fin (- a)"

fun js_add :: "jsnum \<Rightarrow> jsnum \<Rightarrow> jsnum" where
  "js_add (Fin a) (Fin b) = Fin (a + b)"
| "js_add NaN _ = NaN"
| "js_add _ NaN = NaN"
| "js_add PInf NInf = NaN"
| "js_add NInf PInf = NaN"
| "js_add PInf _ = PInf"
| "js_add _ PInf = PInf"
| "js_add NInf _ = NInf"
| "js_add _ NInf = NInf"

definition js_sub :: "jsnum \<Rightarrow> jsnum \<Rightarrow> jsnum" where
  "js_sub a b = js_add a (js_neg b)"

fun js_sign :: "jsnum \<Rightarrow> real" where
  "js_sign NaN = 0"
| "js_sign PInf = 1"
| "js_sign NInf = - 1"
| "js_sign (Fin a) = sgn a"

definition inf_of_sign :: "real \<Rightarrow> jsnum" where
  "inf_of_sign s = (if 0 < s then PInf else if s < 0 then NInf else NaN)"

fun js_mul :: "jsnum \<Rightarrow> jsnum \<Rightarrow> jsnum" where
  "js_mul (Fin a) (Fin b) = Fin (a * b)"
| "js_mul NaN _ = NaN"
| "js_mul _ NaN = NaN"
| "js_mul a b = inf_of_sign (js_sign a * js_sign b)"

fun js_div :: "jsnum \<Rightarrow> jsnum \<Rightarrow> jsnum" where
  "js_div NaN _ = NaN"
| "js_div _ NaN = NaN"
| "js_div (Fin a) (Fin b) = (if b = 0 then inf_of_sign (sgn a) else Fin (a / b))"
| "js_div (Fin a) _ = Fin 0"
| "js_div a (Fin b) = inf_of_sign (js_sign a * (if b < 0 then - 1 else 1))"
| "js_div _ _ = NaN"

fun js_lt :: "jsnum \<Rightarrow> jsnum \<Rightarrow> bool" where
  "js_lt (Fin a) (Fin b) = (a < b)"
| "js_lt NaN _ = False"
| "js_lt _ NaN = False"
| "js_lt _ NInf = False"
| "js_lt NInf _ = True"
| "js_lt PInf _ = False"
| "js_lt _ PInf = True"

definition js_gt :: "jsnum \<Rightarrow> jsnum \<Rightarrow> bool" where
  "js_gt a b = js_lt b a"

text \<open>Strict equality \<^verbatim>\<open>===\<close> on numbers: \<^verbatim>\<open>NaN\<close> equals nothing, itself included.\<close>

definition js_eq :: "jsnum \<Rightarrow> jsnum \<Rightarrow> bool" where
  "js_eq a b = (a \<noteq> NaN \<and> a = b)"

definition js_ge :: "jsnum \<Rightarrow> jsnum \<Rightarrow> bool" where
  "js_ge a b = (js_lt b a \<or> js_eq a b)"

definition js_le :: "jsnum \<Rightarrow> jsnum \<Rightarrow> bool" where
  "js_le a b = (js_lt a b \<or> js_eq a b)"

fun js_abs :: "jsnum \<Rightarrow> jsnum" where
  "js_abs NaN = NaN"
| "js_abs PInf = PInf"
| "js_abs NInf = PInf"
| "js_abs (Fin a) = Fin \<bar>a\<bar>"

fun js_sqrt :: "jsnum \<Rightarrow> jsnum" where
  "js_sqrt NaN = NaN"
| "js_sqrt PInf = PInf"
| "js_sqrt NInf = NaN"
| "js_sqrt (Fin a) = (if a < 0 then NaN else Fin (sqrt a))"

text \<open>\<^verbatim>\<open>Math.round\<close> rounds to the nearest integer, a tie towards plus infinity.\<close>

fun js_round :: "jsnum \<Rightarrow> jsnum" where
  "js_round (Fin a) = Fin (of_int \<lfloor>a + 1 / 2\<rfloor>)"
| "js_round a = a"

text \<open>\<^verbatim>\<open>xs.reduce((a, b) => a + b, 0)\<close>: the sum from the left, starting at zero.\<close>

definition js_sum :: "jsnum list \<Rightarrow> jsnum" where
  "js_sum xs = foldl js_add (Fin 0) xs"

section \<open>Strings to numbers\<close>

text \<open>
  \<^verbatim>\<open>s.split(':')\<close> cuts a string at every colon; it returns at least one piece (the
  empty string splits into one empty piece).
\<close>

fun split_at :: "char \<Rightarrow> string \<Rightarrow> string list" where
  "split_at sep [] = [[]]"
| "split_at sep (c # cs) =
     (if c = sep then [] # split_at sep cs
      else (case split_at sep cs of
              [] \<Rightarrow> [[c]]
            | w # ws \<Rightarrow> (c # w) # ws))"

definition is_digit :: "char \<Rightarrow> bool" where
  "is_digit c = ((48::nat) \<le> of_char c \<and> of_char c \<le> (57::nat))"

definition digit_val :: "char \<Rightarrow> nat" where
  "digit_val c = of_char c - 48"

definition digits_val :: "string \<Rightarrow> nat" where
  "digits_val s = foldl (\<lambda>a c. 10 * a + digit_val c) 0 s"

definition is_digits :: "string \<Rightarrow> bool" where
  "is_digits s = (s \<noteq> [] \<and> list_all is_digit s)"

text \<open>The ASCII white space that \<^verbatim>\<open>Number\<close> trims: TAB, LF, VT, FF, CR and the space.\<close>

definition is_space :: "char \<Rightarrow> bool" where
  "is_space c = (of_char c \<in> {9::nat, 10, 11, 12, 13, 32})"

definition trim :: "string \<Rightarrow> string" where
  "trim s = rev (dropWhile is_space (rev (dropWhile is_space s)))"

text \<open>The exponent part of a decimal literal: nothing, or \<^verbatim>\<open>e\<close>, a sign and digits.\<close>

definition parse_exponent :: "string \<Rightarrow> int option" where
  "parse_exponent s =
     (case s of
        [] \<Rightarrow> Some 0
      | c # r \<Rightarrow>
          if c = CHR ''e'' \<or> c = CHR ''E'' then
            (case r of
               [] \<Rightarrow> None
             | g # ds \<Rightarrow>
                 if g = CHR ''+'' then (if is_digits ds then Some (int (digits_val ds)) else None)
                 else if g = CHR ''-'' then (if is_digits ds then Some (- int (digits_val ds)) else None)
                 else if is_digits r then Some (int (digits_val r)) else None)
          else None)"

definition pow10 :: "int \<Rightarrow> real" where
  "pow10 e = (if 0 \<le> e then 10 ^ nat e else 1 / 10 ^ nat (- e))"

text \<open>
  An unsigned decimal literal: \<^verbatim>\<open>Infinity\<close>, or digits with an optional fraction and an
  optional exponent, with a digit before or after the point.
\<close>

definition parse_unsigned_decimal :: "string \<Rightarrow> jsnum" where
  "parse_unsigned_decimal s =
     (if s = ''Infinity'' then PInf
      else
        let ip = takeWhile is_digit s;
            r1 = dropWhile is_digit s;
            fp = (case r1 of [] \<Rightarrow> [] | c # r \<Rightarrow> if c = CHR ''.'' then takeWhile is_digit r else []);
            r2 = (case r1 of [] \<Rightarrow> [] | c # r \<Rightarrow> if c = CHR ''.'' then dropWhile is_digit r else r1)
        in if ip = [] \<and> fp = [] then NaN
           else (case parse_exponent r2 of
                   None \<Rightarrow> NaN
                 | Some e \<Rightarrow>
                     Fin ((real (digits_val ip) + real (digits_val fp) / 10 ^ length fp) * pow10 e)))"

definition radix_digit :: "char \<Rightarrow> nat option" where
  "radix_digit c =
     (let n = (of_char c :: nat) in
      if 48 \<le> n \<and> n \<le> 57 then Some (n - 48)
      else if 97 \<le> n \<and> n \<le> 102 then Some (n - 87)
      else if 65 \<le> n \<and> n \<le> 70 then Some (n - 55)
      else None)"

definition parse_radix :: "nat \<Rightarrow> string \<Rightarrow> jsnum" where
  "parse_radix b s =
     (if s \<noteq> [] \<and> list_all (\<lambda>c. case radix_digit c of None \<Rightarrow> False | Some d \<Rightarrow> d < b) s
      then Fin (real (foldl (\<lambda>a c. b * a + the (radix_digit c)) 0 s))
      else NaN)"

text \<open>
  \<^verbatim>\<open>Number(s)\<close> on a string: white space is trimmed, the empty string is 0, a literal
  with the prefix \<^verbatim>\<open>0x\<close>, \<^verbatim>\<open>0o\<close> or \<^verbatim>\<open>0b\<close> is read in its radix, a decimal
  literal may carry a sign, and everything else is \<^verbatim>\<open>NaN\<close>.
\<close>

definition js_Number :: "string \<Rightarrow> jsnum" where
  "js_Number s =
     (let t = trim s in
      if t = [] then Fin 0
      else if take 2 t = ''0x'' \<or> take 2 t = ''0X'' then parse_radix 16 (drop 2 t)
      else if take 2 t = ''0o'' \<or> take 2 t = ''0O'' then parse_radix 8 (drop 2 t)
      else if take 2 t = ''0b'' \<or> take 2 t = ''0B'' then parse_radix 2 (drop 2 t)
      else if hd t = CHR ''+'' then parse_unsigned_decimal (tl t)
      else if hd t = CHR ''-'' then js_neg (parse_unsigned_decimal (tl t))
      else parse_unsigned_decimal t)"

section \<open>Sleep duration\<close>

text \<open>
  \<^verbatim>\<open>const [h, m] = s.split(':').map(Number)\<close>: the pieces as numbers. A piece that is
  missing is \<^verbatim>\<open>undefined\<close>, which the arithmetic that follows turns into \<^verbatim>\<open>NaN\<close>.
\<close>

definition time_parts :: "string \<Rightarrow> jsnum list" where
  "time_parts s = map js_Number (split_at CHR '':'' s)"

definition part_num :: "jsnum list \<Rightarrow> nat \<Rightarrow> jsnum" where
  "part_num ps i = (if i < length ps then ps ! i else NaN)"

definition durationMinutes :: "string \<Rightarrow> string \<Rightarrow> jsnum" where
  "durationMinutes startTime endTime =
     (let startHour = part_num (time_parts startTime) 0;
          startMin = part_num (time_parts startTime) 1;
          endHour = part_num (time_parts endTime) 0;
          endMin = part_num (time_parts endTime) 1;
          startMinutes = js_add (js_mul startHour (Fin 60)) startMin;
          endMinutes = js_add (js_mul endHour (Fin 60)) endMin;
          endMinutes' = (if js_lt endMinutes startMinutes
                         then js_add endMinutes (Fin (24 * 60)) else endMinutes)
      in js_sub endMinutes' startMinutes)"

text \<open>\<^verbatim>\<open>HealthService.calculateSleepDuration\<close> (healthService.ts): hours, not rounded.\<close>

definition calculateSleepDuration :: "string \<Rightarrow> string \<Rightarrow> jsnum" where
  "calculateSleepDuration startTime endTime = js_div (durationMinutes startTime endTime) (Fin 60)"

text \<open>\<^verbatim>\<open>Math.round(x * 100) / 100\<close>: the rounding to two decimals both callers use.\<close>

definition round2 :: "jsnum \<Rightarrow> jsnum" where
  "round2 x = js_div (js_round (js_mul x (Fin 100))) (Fin 100)"

text \<open>
  The \<^verbatim>\<open>duration_hours\<close> that \<^verbatim>\<open>HealthService.logEntry\<close> stores, and the screen's
  own \<^verbatim>\<open>calculateSleepDuration\<close> (SleepTrackingScreen.tsx): both round the hours to
  two decimals.
\<close>

definition logEntry_duration_hours :: "string \<Rightarrow> string \<Rightarrow> jsnum" where
  "logEntry_duration_hours sleepStart sleepEnd = round2 (calculateSleepDuration sleepStart sleepEnd)"

definition screen_calculateSleepDuration :: "string \<Rightarrow> string \<Rightarrow> jsnum" where
  "screen_calculateSleepDuration start end' =
     round2 (js_div (durationMinutes start end') (Fin 60))"

text \<open>
  A well-formed \<^verbatim>\<open>HH:MM\<close> time: two digits, a colon, two digits, the hour at most 23
  and the minute at most 59; \<open>clock_minutes\<close> is its minutes since midnight.
\<close>

fun is_HHMM :: "string \<Rightarrow> bool" where
  "is_HHMM [h1, h2, c, m1, m2] =
     (is_digit h1 \<and> is_digit h2 \<and> c = CHR '':'' \<and> is_digit m1 \<and> is_digit m2 \<and>
      10 * digit_val h1 + digit_val h2 \<le> 23 \<and> 10 * digit_val m1 + digit_val m2 \<le> 59)"
| "is_HHMM _ = False"

fun clock_minutes :: "string \<Rightarrow> int" where
  "clock_minutes [h1, h2, c, m1, m2] =
     60 * int (10 * digit_val h1 + digit_val h2) + int (10 * digit_val m1 + digit_val m2)"
| "clock_minutes _ = 0"

text \<open>
  The duration in minutes as the specification words it: the difference of the two clock
  times, with 1440 minutes added when the end is earlier than the start.
\<close>

definition wrapped_minutes :: "string \<Rightarrow> string \<Rightarrow> int" where
  "wrapped_minutes s e =
     (if clock_minutes e < clock_minutes s then clock_minutes e + 1440 - clock_minutes s
      else clock_minutes e - clock_minutes s)"

section \<open>Arrays and text\<close>

text \<open>
  \<^verbatim>\<open>Array.prototype.sort(cmp)\<close> sorts in place and is stable: \<open>a\<close> moves behind
  \<open>b\<close> when \<^verbatim>\<open>cmp(a, b) > 0\<close>. For a comparator that is a consistent order the result
  is the stable sort, computed here by insertion. (When the comparator yields \<^verbatim>\<open>NaN\<close>
  the standard leaves the order to the implementation; the model then keeps this
  insertion order.)
\<close>

fun insert_by :: "('a \<Rightarrow> 'a \<Rightarrow> jsnum) \<Rightarrow> 'a \<Rightarrow> 'a list \<Rightarrow> 'a list" where
  "insert_by cmp x [] = [x]"
| "insert_by cmp x (y # ys) =
     (if js_gt (cmp x y) (Fin 0) then y # insert_by cmp x ys else x # y # ys)"

definition js_sort :: "('a \<Rightarrow> 'a \<Rightarrow> jsnum) \<Rightarrow> 'a list \<Rightarrow> 'a list" where
  "js_sort cmp xs = foldr (insert_by cmp) xs []"

text \<open>
  \<^verbatim>\<open>xs.slice(-days)\<close>: the last \<open>days\<close> elements (all of them when there are fewer);
  \<^verbatim>\<open>slice(-0)\<close> is \<^verbatim>\<open>slice(0)\<close>, the whole array, and a negative \<open>days\<close> drops
  from the front.
\<close>

definition slice_last :: "int \<Rightarrow> 'a list \<Rightarrow> 'a list" where
  "slice_last days xs =
     (if 0 < days then drop (length xs - nat days) xs else drop (nat (- days)) xs)"

fun show_nat :: "nat \<Rightarrow> string" where
  "show_nat n =
     (if n < 10 then [char_of (48 + n)]
      else show_nat (n div 10) @ [char_of (48 + n mod 10)])"

declare show_nat.simps [simp del]

definition show_int :: "int \<Rightarrow> string" where
  "show_int i = (if i < 0 then ''-'' @ show_nat (nat (- i)) else show_nat (nat i))"

text \<open>
  \<^verbatim>\<open>x.toFixed(d)\<close>: the number rounded to \<open>d\<close> decimals, a tie away from zero, in
  fixed notation (which JavaScript keeps for numbers below ten to the power of 21).
\<close>

definition toFixed :: "nat \<Rightarrow> jsnum \<Rightarrow> string" where
  "toFixed d x =
     (case x of
        NaN \<Rightarrow> ''NaN''
      | PInf \<Rightarrow> ''Infinity''
      | NInf \<Rightarrow> ''-Infinity''
      | Fin a \<Rightarrow>
          let n = nat \<lfloor>\<bar>a\<bar> * 10 ^ d + 1 / 2\<rfloor>;
              m = show_nat n;
              m' = replicate (Suc d - length m) CHR ''0'' @ m;
              body = (if d = 0 then m
                      else take (length m' - d) m' @ ''.'' @ drop (length m' - d) m')
          in (if a < 0 then ''-'' else []) @ body)"

text \<open>\<^verbatim>\<open>s.replace('_', ' ')\<close> replaces the first underscore only.\<close>

fun replace_first :: "char \<Rightarrow> char \<Rightarrow> string \<Rightarrow> string" where
  "replace_first a b [] = []"
| "replace_first a b (c # cs) = (if c = a then b # cs else c # replace_first a b cs)"

definition toUpperCase :: "string \<Rightarrow> string" where
  "toUpperCase s =
     map (\<lambda>c. if (97::nat) \<le> of_char c \<and> of_char c \<le> (122::nat)
               then char_of (of_char c - (32::nat)) else c) s"

section \<open>Health entries\<close>

text \<open>
  A calendar date \<^verbatim>\<open>YYYY-MM-DD\<close> is held as its day number, the days since
  1970-01-01: for a well-formed date string \<open>s\<close> of day \<open>d\<close>,
  \<^verbatim>\<open>new Date(s).getTime()\<close> is \<open>d * 86400000\<close> (midnight UTC), two strings are
  equal exactly when their days are, and \<^verbatim>\<open>t.toISOString().split('T')[0]\<close> is the
  string of the day \<open>t div 86400000\<close>. The numbers of an entry are finite, as the
  sliders, the time picker and the JSON store deliver them.
\<close>

type_synonym day = int

definition msPerDay :: int where
  "msPerDay = 1000 * 60 * 60 * 24"

definition getTime :: "day \<Rightarrow> int" where
  "getTime d = d * msPerDay"

record sleep_data =
  start_time :: string
  end_time :: string
  duration_hours :: real
  quality_score :: real

record mood_data =
  mood_score :: real
  stress_score :: real
  journal_entry :: string
  voice_note_path :: "string option"

record symptom_data =
  gi_flare :: real
  skin_flare :: real
  migraine :: real

text \<open>\<^verbatim>\<open>HealthEntrySchema\<close> (types/index.ts), the entry of the correlations service.\<close>

record health_entry_schema =
  date :: day
  sleep :: sleep_data
  mood :: mood_data
  symptoms :: symptom_data

section \<open>The correlations service\<close>

datatype trend = Increasing | Decreasing | Stable

record sleep_correlation =
  sleepMetric :: string
  symptomMetric :: string
  correlation :: jsnum
  strength :: string
  sc_description :: string
  actionableInsight :: string

record trend_analysis =
  metric :: string
  trend :: trend
  changeRate :: jsnum
  period :: string
  significance :: jsnum

datatype insight_type = Correlation | Trend | Pattern | Anomaly

text \<open>The \<^verbatim>\<open>data: any\<close> of a \<^verbatim>\<open>HealthInsight\<close>, one constructor per object the code stores there.\<close>

datatype insight_data =
  EntriesCount nat
| CorrelationData sleep_correlation
| TrendData trend_analysis
| ScheduleData jsnum jsnum
| SleepDebtData jsnum nat
| MismatchData jsnum

record health_insight =
  hi_type :: insight_type
  hi_title :: string
  hi_description :: string
  hi_confidence :: jsnum
  hi_actionable :: bool
  hi_recommendation :: "string option"
  hi_data :: insight_data

text \<open>
  \<^verbatim>\<open>calculateCorrelation\<close>: Pearson's coefficient from the five sums; the denominator
  is named so that statements can refer to it.
\<close>

definition sum_products :: "jsnum list \<Rightarrow> jsnum list \<Rightarrow> jsnum" where
  "sum_products x y = foldl (\<lambda>acc (xi, yi). js_add acc (js_mul xi yi)) (Fin 0) (zip x y)"

definition sum_squares :: "jsnum list \<Rightarrow> jsnum" where
  "sum_squares x = foldl (\<lambda>acc xi. js_add acc (js_mul xi xi)) (Fin 0) x"

definition pearson_numerator :: "jsnum list \<Rightarrow> jsnum list \<Rightarrow> jsnum" where
  "pearson_numerator x y =
     (let n = Fin (real (length x)) in
      js_sub (js_mul n (sum_products x y)) (js_mul (js_sum x) (js_sum y)))"

definition pearson_denominator :: "jsnum list \<Rightarrow> jsnum list \<Rightarrow> jsnum" where
  "pearson_denominator x y =
     (let n = Fin (real (length x)) in
      js_sqrt (js_mul (js_sub (js_mul n (sum_squares x)) (js_mul (js_sum x) (js_sum x)))
                      (js_sub (js_mul n (sum_squares y)) (js_mul (js_sum y) (js_sum y)))))"

definition calculateCorrelation :: "jsnum list \<Rightarrow> jsnum list \<Rightarrow> jsnum" where
  "calculateCorrelation x y =
     (if length x \<noteq> length y \<or> length x = 0 then Fin 0
      else if js_eq (pearson_denominator x y) (Fin 0) then Fin 0
      else js_div (pearson_numerator x y) (pearson_denominator x y))"

definition calculateSignificance :: "jsnum \<Rightarrow> jsnum \<Rightarrow> jsnum" where
  "calculateSignificance c sampleSize =
     (if js_lt sampleSize (Fin 3) then Fin 1
      else
        let t = js_mul (js_abs c)
                  (js_sqrt (js_div (js_sub sampleSize (Fin 2)) (js_sub (Fin 1) (js_mul c c))))
        in if js_gt t (Fin (2576 / 1000)) then Fin (1 / 100)
           else if js_gt t (Fin (196 / 100)) then Fin (5 / 100)
           else if js_gt t (Fin (1645 / 1000)) then Fin (10 / 100)
           else Fin (20 / 100))"

definition getCorrelationStrength :: "jsnum \<Rightarrow> string \<times> string" where
  "getCorrelationStrength c =
     (let absCorr = js_abs c in
      if js_ge absCorr (Fin (7 / 10)) then (''strong'', ''Very strong relationship'')
      else if js_ge absCorr (Fin (5 / 10)) then (''moderate'', ''Moderate relationship'')
      else if js_ge absCorr (Fin (3 / 10)) then (''weak'', ''Weak relationship'')
      else (''weak'', ''Very weak or no relationship''))"


text \<open>One block of \<^verbatim>\<open>analyzeSleepCorrelations\<close>: a pair is reported when \<open>|r| > 0.2\<close>.\<close>

definition correlation_item ::
  "string \<Rightarrow> string \<Rightarrow> string \<Rightarrow> string \<Rightarrow> jsnum \<Rightarrow> string \<Rightarrow> sleep_correlation list" where
  "correlation_item sleepM symptomM subject object c insight =
     (if js_gt (js_abs c) (Fin (2 / 10))
      then [\<lparr>sleepMetric = sleepM, symptomMetric = symptomM, correlation = c,
             strength = fst (getCorrelationStrength c),
             sc_description = subject @ '' '' @
               (if js_lt c (Fin 0) then ''negatively'' else ''positively'') @
               '' correlates with '' @ object @ '' severity'',
             actionableInsight = insight\<rparr>]
      else [])"

definition analyzeSleepCorrelations :: "health_entry_schema list \<Rightarrow> sleep_correlation list" where
  "analyzeSleepCorrelations entries =
     (if length entries < 3 then []
      else
        let sleepDuration = map (\<lambda>e. Fin (duration_hours (sleep e))) entries;
            sleepQuality = map (\<lambda>e. Fin (quality_score (sleep e))) entries;
            giFlare = map (\<lambda>e. Fin (gi_flare (symptoms e))) entries;
            skinFlare = map (\<lambda>e. Fin (skin_flare (symptoms e))) entries;
            migraines = map (\<lambda>e. Fin (migraine (symptoms e))) entries;
            moods = map (\<lambda>e. Fin (mood_score (mood e))) entries;
            stress = map (\<lambda>e. Fin (stress_score (mood e))) entries;
            durationGiCorr = calculateCorrelation sleepDuration giFlare;
            durationSkinCorr = calculateCorrelation sleepDuration skinFlare;
            durationMigraineCorr = calculateCorrelation sleepDuration migraines;
            qualityGiCorr = calculateCorrelation sleepQuality giFlare;
            qualitySkinCorr = calculateCorrelation sleepQuality skinFlare;
            qualityMigraineCorr = calculateCorrelation sleepQuality migraines;
            moodGiCorr = calculateCorrelation moods giFlare;
            stressGiCorr = calculateCorrelation stress giFlare;
            correlations =
              correlation_item ''Sleep Duration'' ''GI Flare'' ''Sleep duration'' ''GI flare''
                durationGiCorr
                (if js_lt durationGiCorr (Fin 0)
                 then ''Shorter sleep may increase GI symptoms. Aim for 7-9 hours of sleep.''
                 else ''Longer sleep may help reduce GI symptoms.'') @
              correlation_item ''Sleep Duration'' ''Skin Flare'' ''Sleep duration'' ''skin flare''
                durationSkinCorr
                (if js_lt durationSkinCorr (Fin 0)
                 then ''Insufficient sleep may trigger skin flares. Maintain consistent sleep schedule.''
                 else ''Adequate sleep may help prevent skin flares.'') @
              correlation_item ''Sleep Duration'' ''Migraine'' ''Sleep duration'' ''migraine''
                durationMigraineCorr
                (if js_lt durationMigraineCorr (Fin 0)
                 then ''Poor sleep may trigger migraines. Focus on sleep hygiene.''
                 else ''Good sleep may help prevent migraines.'') @
              correlation_item ''Sleep Quality'' ''GI Flare'' ''Sleep quality'' ''GI flare''
                qualityGiCorr
                (if js_lt qualityGiCorr (Fin 0)
                 then ''Poor sleep quality may worsen GI symptoms. Improve sleep environment.''
                 else ''Better sleep quality may reduce GI symptoms.'') @
              correlation_item ''Sleep Quality'' ''Skin Flare'' ''Sleep quality'' ''skin flare''
                qualitySkinCorr
                (if js_lt qualitySkinCorr (Fin 0)
                 then ''Poor sleep quality may trigger skin flares. Consider sleep aids or environment changes.''
                 else ''Good sleep quality may help prevent skin flares.'') @
              correlation_item ''Sleep Quality'' ''Migraine'' ''Sleep quality'' ''migraine''
                qualityMigraineCorr
                (if js_lt qualityMigraineCorr (Fin 0)
                 then ''Poor sleep quality may trigger migraines. Focus on deep sleep.''
                 else ''Good sleep quality may help prevent migraines.'') @
              correlation_item ''Mood'' ''GI Flare'' ''Mood'' ''GI flare''
                moodGiCorr
                (if js_lt moodGiCorr (Fin 0)
                 then ''Low mood may worsen GI symptoms. Consider stress management techniques.''
                 else ''Positive mood may help reduce GI symptoms.'') @
              correlation_item ''Stress'' ''GI Flare'' ''Stress'' ''GI flare''
                stressGiCorr
                (if js_gt stressGiCorr (Fin 0)
                 then ''High stress may increase GI symptoms. Practice relaxation techniques.''
                 else ''Low stress may help reduce GI symptoms.'')
        in js_sort (\<lambda>a b. js_sub (js_abs (correlation b)) (js_abs (correlation a))) correlations)"

text \<open>The \<^verbatim>\<open>switch (metric)\<close> of \<^verbatim>\<open>analyzeTrends\<close>; an unknown metric reads 0.\<close>

definition metric_value :: "string \<Rightarrow> health_entry_schema \<Rightarrow> real" where
  "metric_value m entry =
     (if m = ''sleep_duration'' then duration_hours (sleep entry)
      else if m = ''sleep_quality'' then quality_score (sleep entry)
      else if m = ''mood'' then mood_score (mood entry)
      else if m = ''stress'' then stress_score (mood entry)
      else if m = ''gi_flare'' then gi_flare (symptoms entry)
      else if m = ''skin_flare'' then skin_flare (symptoms entry)
      else if m = ''migraine'' then migraine (symptoms entry)
      else 0)"

text \<open>
  The regression of \<^verbatim>\<open>analyzeTrends\<close> over the positions \<open>0, \<dots>, n - 1\<close>: the slope
  and the signed rate of change, in percent of the mean.
\<close>

definition trend_slope :: "jsnum list \<Rightarrow> jsnum" where
  "trend_slope vals =
     (let n = Fin (real (length vals));
          x = map (\<lambda>i. Fin (real i)) [0..<length vals];
          sumX = js_sum x;
          sumY = js_sum vals;
          sumXY = sum_products x vals;
          sumX2 = sum_squares x
      in js_div (js_sub (js_mul n sumXY) (js_mul sumX sumY))
                (js_sub (js_mul n sumX2) (js_mul sumX sumX)))"

definition trend_rate :: "jsnum list \<Rightarrow> jsnum" where
  "trend_rate vals =
     js_mul (js_div (trend_slope vals) (js_div (js_sum vals) (Fin (real (length vals))))) (Fin 100)"

definition analyzeTrends :: "health_entry_schema list \<Rightarrow> string \<Rightarrow> int \<Rightarrow> trend_analysis option" where
  "analyzeTrends entries m days =
     (if length entries < 3 then None
      else
        let recentEntries = slice_last days entries;
            vals = map (\<lambda>entry. Fin (metric_value m entry)) recentEntries
        in if length vals < 2 then None
           else
             let slope = trend_slope vals;
                 rate = trend_rate vals;
                 tr = (if js_lt (js_abs rate) (Fin 5) then Stable
                       else if js_gt rate (Fin 0) then Increasing
                       else Decreasing)
             in Some \<lparr>metric = m, trend = tr, changeRate = js_abs rate,
                      period = show_int days @ '' days'',
                      significance =
                        calculateSignificance (js_abs slope) (Fin (real (length vals)))\<rparr>)"






text \<open>An entry for examples: sleep from 23:00 to 07:00, no symptoms, the given scores.\<close>

definition sample_entry :: "day \<Rightarrow> real \<Rightarrow> real \<Rightarrow> real \<Rightarrow> health_entry_schema" where
  "sample_entry d quality moodv stressv =
     \<lparr>date = d,
      sleep = \<lparr>start_time = ''23:00'', end_time = ''07:00'', duration_hours = 8,
               quality_score = quality\<rparr>,
      mood = \<lparr>mood_score = moodv, stress_score = stressv, journal_entry = [],
              voice_note_path = None\<rparr>,
      symptoms = \<lparr>gi_flare = 0, skin_flare = 0, migraine = 0\<rparr>\<rparr>"


text \<open>Three days on which the mood falls from 9 to 3.\<close>

definition falling :: "health_entry_schema list" where
  "falling = [sample_entry 0 7 9 5, sample_entry 1 7 6 5, sample_entry 2 7 3 5]"


section \<open>The gamification service\<close>

text \<open>
  \<^verbatim>\<open>HealthEntry\<close> as the gamification and the insights service read it: a date, and
  sleep and mood records that may be missing (they are read through \<^verbatim>\<open>?.\<close>).
\<close>

record health_entry =
  entry_date :: day
  entry_sleep :: "sleep_data option"
  entry_mood :: "mood_data option"

datatype badge_category = StreakBadge | ConsistencyBadge | ImprovementBadge | MilestoneBadge | SpecialBadge

text \<open>A \<^verbatim>\<open>Date\<close> is held as its time value, the milliseconds since the epoch.\<close>

record badge =
  badge_id :: string
  badge_name :: string
  badge_description :: string
  icon :: string
  color :: string
  category :: badge_category
  unlockedAt :: "int option"
  progress :: int
  maxProgress :: int
  isUnlocked :: bool

datatype streak_type = Daily | Weekly

record streak_data =
  currentStreak :: int
  longestStreak :: int
  lastLogDate :: "day option"
  streakType :: streak_type

record achievement =
  achievement_id :: string
  achievement_title :: string
  achievement_description :: string
  points :: int
  achievement_unlockedAt :: "int option"
  achievement_isUnlocked :: bool

datatype improvement = Up | Down | Steady

record user_stats =
  totalLogs :: int
  totalDays :: int
  averageMood :: real
  averageSleep :: real
  averageStress :: real
  improvementTrend :: improvement
  badges :: "badge list"
  achievements :: "achievement list"
  streaks :: streak_data
  level :: int
  experience :: int
  nextLevelExp :: int

definition new_badge ::
  "string \<Rightarrow> string \<Rightarrow> string \<Rightarrow> string \<Rightarrow> string \<Rightarrow> badge_category \<Rightarrow> int \<Rightarrow> badge" where
  "new_badge i n d ic co ca mp =
     \<lparr>badge_id = i, badge_name = n, badge_description = d, icon = ic, color = co,
      category = ca, unlockedAt = None, progress = 0, maxProgress = mp, isUnlocked = False\<rparr>"

definition initializeBadges :: "badge list" where
  "initializeBadges =
     [new_badge ''streak_3'' ''Getting Started'' ''Log 3 days in a row'' ''flame'' ''#FF6B6B'' StreakBadge 3,
      new_badge ''streak_7'' ''Week Warrior'' ''Log 7 days in a row'' ''trophy'' ''#4ECDC4'' StreakBadge 7,
      new_badge ''streak_30'' ''Monthly Master'' ''Log 30 days in a row'' ''medal'' ''#45B7D1'' StreakBadge 30,
      new_badge ''streak_100'' ''Century Champion'' ''Log 100 days in a row'' ''star'' ''#96CEB4'' StreakBadge 100,
      new_badge ''consistency_week'' ''Weekly Warrior'' ''Log every day for a week'' ''calendar'' ''#FECA57'' ConsistencyBadge 7,
      new_badge ''consistency_month'' ''Monthly Master'' ''Log every day for a month'' ''calendar-outline'' ''#FF9FF3'' ConsistencyBadge 30,
      new_badge ''mood_improvement'' ''Mood Booster'' ''Improve mood score by 2+ points over 7 days'' ''happy'' ''#54A0FF'' ImprovementBadge 1,
      new_badge ''sleep_improvement'' ''Sleep Optimizer'' ''Improve sleep quality by 2+ points over 7 days'' ''moon'' ''#5F27CD'' ImprovementBadge 1,
      new_badge ''stress_reduction'' ''Stress Buster'' ''Reduce stress by 2+ points over 7 days'' ''leaf'' ''#00D2D3'' ImprovementBadge 1,
      new_badge ''milestone_50'' ''Half Century'' ''Complete 50 health logs'' ''checkmark-circle'' ''#FF6348'' MilestoneBadge 50,
      new_badge ''milestone_100'' ''Century Club'' ''Complete 100 health logs'' ''ribbon'' ''#2ED573'' MilestoneBadge 100,
      new_badge ''milestone_365'' ''Year Warrior'' ''Complete 365 health logs'' ''trophy-outline'' ''#FFA502'' MilestoneBadge 365,
      new_badge ''early_bird'' ''Early Bird'' ''Log before 8 AM for 7 days'' ''sunny'' ''#FFD700'' SpecialBadge 7,
      new_badge ''night_owl'' ''Night Owl'' ''Log after 10 PM for 7 days'' ''moon'' ''#8B5CF6'' SpecialBadge 7,
      new_badge ''perfectionist'' ''Perfectionist'' ''Rate sleep quality 10/10 for 5 days'' ''star'' ''#F59E0B'' SpecialBadge 5]"

definition new_achievement :: "string \<Rightarrow> string \<Rightarrow> string \<Rightarrow> int \<Rightarrow> achievement" where
  "new_achievement i t d p =
     \<lparr>achievement_id = i, achievement_title = t, achievement_description = d, points = p,
      achievement_unlockedAt = None, achievement_isUnlocked = False\<rparr>"

definition initializeAchievements :: "achievement list" where
  "initializeAchievements =
     [new_achievement ''first_log'' ''First Steps'' ''Complete your first health log'' 10,
      new_achievement ''week_complete'' ''Week Complete'' ''Log every day for a full week'' 50,
      new_achievement ''month_complete'' ''Month Complete'' ''Log every day for a full month'' 200,
      new_achievement ''mood_master'' ''Mood Master'' ''Maintain average mood above 8 for a week'' 100,
      new_achievement ''sleep_master'' ''Sleep Master'' ''Maintain average sleep quality above 8 for a week'' 100,
      new_achievement ''stress_master'' ''Stress Master'' ''Keep stress levels below 3 for a week'' 100,
      new_achievement ''data_analyst'' ''Data Analyst'' ''View your insights 10 times'' 50,
      new_achievement ''voice_logger'' ''Voice Logger'' ''Use voice journaling 10 times'' 75]"

text \<open>
  The in-memory state of the service: the badge and the achievement table and the last
  statistics. (The copies written to \<^verbatim>\<open>AsyncStorage\<close> never flow back into an
  evaluation and are not modelled.)
\<close>

record service =
  service_badges :: "badge list"
  service_achievements :: "achievement list"
  service_userStats :: "user_stats option"

definition new_service :: service where
  "new_service = \<lparr>service_badges = initializeBadges,
                   service_achievements = initializeAchievements,
                   service_userStats = None\<rparr>"

text \<open>
  The two comparators the services sort entries with. \<^verbatim>\<open>healthData.sort(...)\<close> sorts
  the caller's array in place, so every operation that sorts returns the array as it
  leaves it, next to its result.
\<close>

definition sort_oldest_first :: "health_entry list \<Rightarrow> health_entry list" where
  "sort_oldest_first xs =
     js_sort (\<lambda>a b. Fin (real_of_int (getTime (entry_date a) - getTime (entry_date b)))) xs"

definition sort_newest_first :: "health_entry list \<Rightarrow> health_entry list" where
  "sort_newest_first xs =
     js_sort (\<lambda>a b. Fin (real_of_int (getTime (entry_date b) - getTime (entry_date a)))) xs"

text \<open>\<^verbatim>\<open>entry.mood?.mood_score || 0\<close>: a missing record or a zero score reads 0.\<close>

definition or_zero :: "real option \<Rightarrow> real" where
  "or_zero v = (case v of None \<Rightarrow> 0 | Some x \<Rightarrow> if x = 0 then 0 else x)"

definition mood_of :: "health_entry \<Rightarrow> real" where
  "mood_of entry = or_zero (map_option mood_score (entry_mood entry))"

definition sleep_of :: "health_entry \<Rightarrow> real" where
  "sleep_of entry = or_zero (map_option quality_score (entry_sleep entry))"

definition stress_of :: "health_entry \<Rightarrow> real" where
  "stress_of entry = or_zero (map_option stress_score (entry_mood entry))"

text \<open>The mean of the scores above 0, and 0 when there is none.\<close>

definition average_positive :: "real list \<Rightarrow> real" where
  "average_positive raw =
     (let scores = filter (\<lambda>score. 0 < score) raw
      in if 0 < length scores then sum_list scores / real (length scores) else 0)"

definition calculateAverageScore :: "health_entry list \<Rightarrow> real" where
  "calculateAverageScore entries =
     average_positive (map (\<lambda>entry. (mood_of entry + sleep_of entry + (10 - stress_of entry)) / 3) entries)"

definition calculateImprovementTrend :: "health_entry list \<Rightarrow> improvement \<times> health_entry list" where
  "calculateImprovementTrend healthData =
     (if length healthData < 14 then (Steady, healthData)
      else
        let sortedData = sort_oldest_first healthData;
            firstHalf = take (length sortedData div 2) sortedData;
            secondHalf = drop (length sortedData div 2) sortedData;
            firstAvg = calculateAverageScore firstHalf;
            secondAvg = calculateAverageScore secondHalf;
            change = js_mul (js_div (Fin (secondAvg - firstAvg)) (Fin firstAvg)) (Fin 100)
        in (if js_gt change (Fin 5) then Up
            else if js_lt change (Fin (- 5)) then Down
            else Steady,
            sortedData))"

text \<open>
  The host's time zone, as ECMAScript has it: the offset of local time from UTC in
  milliseconds, at a UTC instant and at a local time value. \<^verbatim>\<open>d.setDate(d.getDate() - 1)\<close>
  moves the local time back by one calendar day, keeping the local time of day, and
  converts back to UTC.
\<close>

record zone =
  offset_at_utc :: "int \<Rightarrow> int"
  offset_at_local :: "int \<Rightarrow> int"

definition setDate_previous :: "zone \<Rightarrow> int \<Rightarrow> int" where
  "setDate_previous z t =
     (let localTime = t + offset_at_utc z t;
          newDate = localTime - msPerDay
      in newDate - offset_at_local z newDate)"

text \<open>\<^verbatim>\<open>t.toISOString().split('T')[0]\<close>: the UTC day of an instant.\<close>

definition isoDate :: "int \<Rightarrow> day" where
  "isoDate t = t div msPerDay"

text \<open>The loop of the current streak: at most \<open>fuel\<close> = 365 rounds, back from today.\<close>

fun currentStreak_loop :: "zone \<Rightarrow> health_entry list \<Rightarrow> nat \<Rightarrow> int \<Rightarrow> int \<Rightarrow> int" where
  "currentStreak_loop z sortedData 0 checkDate streak = streak"
| "currentStreak_loop z sortedData (Suc fuel) checkDate streak =
     (let dateStr = isoDate checkDate;
          hasLog = list_ex (\<lambda>entry. entry_date entry = dateStr) sortedData
      in if hasLog
         then currentStreak_loop z sortedData fuel (setDate_previous z checkDate) (streak + 1)
         else streak)"

text \<open>\<^verbatim>\<open>Array.from(new Set(xs))\<close>: the distinct elements, in the order of their first occurrence.\<close>

definition distinct_in_order :: "'a list \<Rightarrow> 'a list" where
  "distinct_in_order xs = rev (remdups (rev xs))"

text \<open>The loop of the longest streak over the distinct dates, newest first.\<close>

fun longestStreak_loop :: "day list \<Rightarrow> int \<Rightarrow> int \<Rightarrow> int" where
  "longestStreak_loop [] longest tempStreak = longest"
| "longestStreak_loop [currentDate] longest tempStreak = max longest (tempStreak + 1)"
| "longestStreak_loop (currentDate # nextDate # rest) longest tempStreak =
     (let daysDiff = (getTime currentDate - getTime nextDate) div msPerDay
      in if daysDiff = 1
         then longestStreak_loop (nextDate # rest) longest (tempStreak + 1)
         else longestStreak_loop (nextDate # rest) (max longest (tempStreak + 1)) 0)"

text \<open>
  \<^verbatim>\<open>calculateStreaks\<close>; \<open>now\<close> is the instant \<^verbatim>\<open>new Date()\<close> reads and \<open>z\<close> the
  host's time zone.
\<close>

definition calculateStreaks :: "zone \<Rightarrow> int \<Rightarrow> health_entry list \<Rightarrow> streak_data \<times> health_entry list" where
  "calculateStreaks z now healthData =
     (let sortedData = sort_newest_first healthData
      in if length sortedData = 0
         then (\<lparr>currentStreak = 0, longestStreak = 0, lastLogDate = None, streakType = Daily\<rparr>,
               sortedData)
         else
           let today = isoDate now;
               current = currentStreak_loop z sortedData 365 (getTime today) 0;
               allDates = distinct_in_order (map entry_date sortedData);
               sortedDates = js_sort (\<lambda>a b. Fin (real_of_int (getTime b - getTime a))) allDates;
               longest = longestStreak_loop sortedDates 0 0
           in (\<lparr>currentStreak = current, longestStreak = longest,
                 lastLogDate = Some (entry_date (hd sortedData)), streakType = Daily\<rparr>,
               sortedData))"


text \<open>
  \<^verbatim>\<open>calculateStats\<close>. The statistics hold the service's own badge and achievement
  arrays (\<^verbatim>\<open>badges: this.badges\<close>), not copies.
\<close>

definition calculateStats ::
  "zone \<Rightarrow> int \<Rightarrow> service \<Rightarrow> health_entry list \<Rightarrow> user_stats \<times> health_entry list" where
  "calculateStats z now svc healthData =
     (let logs = int (length healthData);
          days = int (length (distinct_in_order (map entry_date healthData)));
          avgMood = average_positive (map mood_of healthData);
          avgSleep = average_positive (map sleep_of healthData);
          avgStress = average_positive (map stress_of healthData);
          (trendNow, healthData1) = calculateImprovementTrend healthData;
          (streaksNow, healthData2) = calculateStreaks z now healthData1;
          xp = logs * 10;
          lvl = xp div 100 + 1
      in (\<lparr>totalLogs = logs, totalDays = days, averageMood = avgMood, averageSleep = avgSleep,
            averageStress = avgStress, improvementTrend = trendNow,
            badges = service_badges svc, achievements = service_achievements svc,
            streaks = streaksNow, level = lvl, experience = xp, nextLevelExp = lvl * 100\<rparr>,
          healthData2))"

text \<open>\<^verbatim>\<open>xs.slice(s, e)\<close> with indices that count from the end when negative.\<close>

definition rel_index :: "int \<Rightarrow> nat \<Rightarrow> nat" where
  "rel_index k len = (if k < 0 then nat (max (int len + k) 0) else min (nat k) len)"

definition js_slice :: "int \<Rightarrow> int \<Rightarrow> 'a list \<Rightarrow> 'a list" where
  "js_slice s e xs =
     (let a = rel_index s (length xs); b = rel_index e (length xs)
      in take (b - a) (drop a xs))"

definition getAverageScore :: "health_entry list \<Rightarrow> string \<Rightarrow> real" where
  "getAverageScore entries ty =
     average_positive
       (map (\<lambda>entry.
               if ty = ''mood_improvement'' then mood_of entry
               else if ty = ''sleep_improvement'' then sleep_of entry
               else if ty = ''stress_reduction'' then stress_of entry
               else 0) entries)"

definition checkImprovement :: "health_entry list \<Rightarrow> string \<Rightarrow> bool \<times> health_entry list" where
  "checkImprovement healthData badgeId =
     (if length healthData < 14 then (False, healthData)
      else
        let sortedData = sort_oldest_first healthData;
            last7Days = slice_last 7 sortedData;
            previous7Days = js_slice (- 14) (- 7) sortedData
        in if length last7Days < 7 \<or> length previous7Days < 7 then (False, sortedData)
           else
             let lastAvg = getAverageScore last7Days badgeId;
                 prevAvg = getAverageScore previous7Days badgeId
             in (if badgeId = ''stress_reduction'' then lastAvg < prevAvg - 2
                 else lastAvg > prevAvg + 2,
                 sortedData))"

text \<open>
  One round of the loop of \<^verbatim>\<open>checkBadges\<close>: the badge as the round leaves it, whether
  it was unlocked in this round, and the entry array as the round leaves it. \<open>now\<close> is
  the instant \<^verbatim>\<open>new Date()\<close> reads.
\<close>

definition check_badge ::
  "int \<Rightarrow> user_stats \<Rightarrow> badge \<Rightarrow> health_entry list \<Rightarrow> badge \<times> bool \<times> health_entry list" where
  "check_badge now stats b healthData =
     (if isUnlocked b then (b, False, healthData)
      else
        let i = badge_id b;
            streak = currentStreak (streaks stats);
            (prog, shouldUnlock, healthData') =
              (if i = ''streak_3'' \<or> i = ''streak_7'' \<or> i = ''streak_30'' \<or> i = ''streak_100''
               then (min streak (maxProgress b), streak \<ge> maxProgress b, healthData)
               else if i = ''consistency_week'' then (min streak 7, streak \<ge> 7, healthData)
               else if i = ''consistency_month'' then (min streak 30, streak \<ge> 30, healthData)
               else if i = ''milestone_50'' \<or> i = ''milestone_100'' \<or> i = ''milestone_365''
               then (min (totalLogs stats) (maxProgress b), totalLogs stats \<ge> maxProgress b,
                     healthData)
               else if i = ''mood_improvement'' \<or> i = ''sleep_improvement'' \<or> i = ''stress_reduction''
               then (let (improved, sorted) = checkImprovement healthData i
                     in (if improved then 1 else 0, improved, sorted))
               else (0, False, healthData));
            b' = b\<lparr>progress := prog\<rparr>
        in if shouldUnlock
           then (b'\<lparr>isUnlocked := True, unlockedAt := Some now\<rparr>, True, healthData')
           else (b', False, healthData'))"

text \<open>
  \<^verbatim>\<open>checkBadges\<close>: the badge table after the loop, the badges unlocked by it, and the
  entry array after it.
\<close>

fun checkBadges ::
  "int \<Rightarrow> user_stats \<Rightarrow> badge list \<Rightarrow> health_entry list \<Rightarrow>
   badge list \<times> badge list \<times> health_entry list" where
  "checkBadges now stats [] healthData = ([], [], healthData)"
| "checkBadges now stats (b # bs) healthData =
     (let (b', unlocked, healthData') = check_badge now stats b healthData;
          (bs', newBadges, healthData'') = checkBadges now stats bs healthData'
      in (b' # bs', (if unlocked then [b'] else []) @ newBadges, healthData''))"

definition check_achievement :: "int \<Rightarrow> user_stats \<Rightarrow> achievement \<Rightarrow> achievement \<times> bool" where
  "check_achievement now stats a =
     (if achievement_isUnlocked a then (a, False)
      else
        let i = achievement_id a;
            shouldUnlock =
              (if i = ''first_log'' then totalLogs stats \<ge> 1
               else if i = ''week_complete'' then currentStreak (streaks stats) \<ge> 7
               else if i = ''month_complete'' then currentStreak (streaks stats) \<ge> 30
               else if i = ''mood_master'' then averageMood stats \<ge> 8
               else if i = ''sleep_master'' then averageSleep stats \<ge> 8
               else if i = ''stress_master'' then averageStress stats \<le> 3
               else False)
        in if shouldUnlock
           then (a\<lparr>achievement_isUnlocked := True, achievement_unlockedAt := Some now\<rparr>, True)
           else (a, False))"

definition checkAchievements ::
  "int \<Rightarrow> user_stats \<Rightarrow> achievement list \<Rightarrow> achievement list \<times> achievement list" where
  "checkAchievements now stats as =
     (map (\<lambda>a. fst (check_achievement now stats a)) as,
      map (\<lambda>a. fst (check_achievement now stats a))
        (filter (\<lambda>a. snd (check_achievement now stats a)) as))"

text \<open>
  \<^verbatim>\<open>updateStats\<close>: the statistics returned (their badge and achievement arrays are the
  service's, so they show the tables as the checks leave them), the service after the
  call, and the caller's entry array after the call.
\<close>

definition updateStats ::
  "zone \<Rightarrow> int \<Rightarrow> service \<Rightarrow> health_entry list \<Rightarrow> user_stats \<times> service \<times> health_entry list" where
  "updateStats z now svc healthData =
     (let (stats, healthData1) = calculateStats z now svc healthData;
          (badges', newBadges, healthData2) =
            checkBadges now stats (service_badges svc) healthData1;
          (achievements', newAchievements) =
            checkAchievements now stats (service_achievements svc);
          stats' = stats\<lparr>badges := badges', achievements := achievements'\<rparr>
      in (stats',
          \<lparr>service_badges = badges', service_achievements = achievements',
           service_userStats = Some stats'\<rparr>,
          healthData2))"

text \<open>
  The day number of a civil date (proleptic Gregorian calendar), to write dates in
  examples, and entries for examples: the three scores on a day.
\<close>

definition ymd :: "int \<Rightarrow> int \<Rightarrow> int \<Rightarrow> day" where
  "ymd y m d =
     (let y' = (if m \<le> 2 then y - 1 else y);
          era = y' div 400;
          yoe = y' - era * 400;
          doy = (153 * (if 2 < m then m - 3 else m + 9) + 2) div 5 + d - 1;
          doe = yoe * 365 + yoe div 4 - yoe div 100 + doy
      in era * 146097 + doe - 719468)"

definition scored_entry :: "day \<Rightarrow> real \<Rightarrow> real \<Rightarrow> real \<Rightarrow> health_entry" where
  "scored_entry d quality moodv stressv =
     \<lparr>entry_date = d,
      entry_sleep = Some \<lparr>start_time = ''23:00'', end_time = ''07:00'', duration_hours = 8,
                          quality_score = quality\<rparr>,
      entry_mood = Some \<lparr>mood_score = moodv, stress_score = stressv, journal_entry = [],
                         voice_note_path = None\<rparr>\<rparr>"


text \<open>A host in UTC: local time is UTC.\<close>

definition utc_zone :: zone where
  "utc_zone = \<lparr>offset_at_utc = (\<lambda>t. 0), offset_at_local = (\<lambda>t. 0)\<rparr>"

text \<open>
  Two entries, the older one first: the first and the second of January 2024.
\<close>

definition two_days :: "health_entry list" where
  "two_days = [scored_entry (ymd 2024 1 1) 7 6 4, scored_entry (ymd 2024 1 2) 7 6 4]"

text \<open>
  Fourteen consecutive days from the first of January 2024, with the given score on
  each day of the first and of the second week.
\<close>

definition two_weeks :: "(real \<Rightarrow> health_entry) \<Rightarrow> real \<Rightarrow> real \<Rightarrow> health_entry list" where
  "two_weeks entry_on first second =
     map (\<lambda>e. e first) (map (\<lambda>d x. (entry_on x)\<lparr>entry_date := ymd 2024 1 d\<rparr>) [1, 2, 3, 4, 5, 6, 7]) @
     map (\<lambda>e. e second) (map (\<lambda>d x. (entry_on x)\<lparr>entry_date := ymd 2024 1 d\<rparr>) [8, 9, 10, 11, 12, 13, 14])"

text \<open>A service in which the first badge was unlocked at the instant 1000.\<close>

definition service_with_unlocked :: service where
  "service_with_unlocked =
     \<lparr>service_badges =
        [(new_badge ''streak_3'' ''Getting Started'' ''Log 3 days in a row'' ''flame'' ''#FF6B6B''
            StreakBadge 3)\<lparr>isUnlocked := True, unlockedAt := Some 1000, progress := 3\<rparr>],
      service_achievements =
        [(new_achievement ''first_log'' ''First Steps'' ''Complete your first health log'' 10)
           \<lparr>achievement_isUnlocked := True, achievement_unlockedAt := Some 1000\<rparr>],
      service_userStats = None\<rparr>"


section \<open>Insight generation\<close>

text \<open>\<^verbatim>\<open>CorrelationsService.analyzeSleepPatterns\<close>.\<close>

definition CorrelationsService_analyzeSleepPatterns :: "health_entry_schema list \<Rightarrow> health_insight list" where
  "CorrelationsService_analyzeSleepPatterns entries =
     (if length entries < 7 then []
      else
        let sleepDurations = map (\<lambda>e. Fin (duration_hours (sleep e))) entries;
            sleepQualities = map (\<lambda>e. Fin (quality_score (sleep e))) entries;
            n = Fin (real (length sleepDurations));
            avgDuration = js_div (js_sum sleepDurations) n;
            durationVariance =
              js_div (foldl (\<lambda>acc d. js_add acc (js_mul (js_sub d avgDuration) (js_sub d avgDuration)))
                        (Fin 0) sleepDurations) n;
            durationStdDev = js_sqrt durationVariance;
            shortSleepDays = length (filter (\<lambda>d. js_lt d (Fin 6)) sleepDurations);
            sleepDebtRatio = js_div (Fin (real shortSleepDays)) n;
            qualityDurationCorr = calculateCorrelation sleepDurations sleepQualities
        in (if js_gt durationStdDev (Fin (15 / 10))
            then [\<lparr>hi_type = Pattern, hi_title = ''Irregular Sleep Schedule'',
                   hi_description = ''Your sleep duration varies significantly ('' @
                     toFixed 1 durationStdDev @ '' hours standard deviation).'',
                   hi_confidence = Fin (8 / 10), hi_actionable = True,
                   hi_recommendation =
                     Some ''Try to maintain a consistent bedtime and wake time, even on weekends.'',
                   hi_data = ScheduleData avgDuration durationStdDev\<rparr>]
            else []) @
           (if js_gt sleepDebtRatio (Fin (3 / 10))
            then [\<lparr>hi_type = Pattern, hi_title = ''Frequent Sleep Deprivation'',
                   hi_description = ''You're getting less than 6 hours of sleep '' @
                     toFixed 0 (js_mul sleepDebtRatio (Fin 100)) @ ''% of the time.'',
                   hi_confidence = Fin (9 / 10), hi_actionable = True,
                   hi_recommendation =
                     Some ''Prioritize getting 7-9 hours of sleep nightly. Consider adjusting your schedule.'',
                   hi_data = SleepDebtData sleepDebtRatio shortSleepDays\<rparr>]
            else []) @
           (if js_lt qualityDurationCorr (Fin (3 / 10))
            then [\<lparr>hi_type = Pattern, hi_title = ''Sleep Quality vs Duration Mismatch'',
                   hi_description = ''Your sleep quality doesn't strongly correlate with sleep duration.'',
                   hi_confidence = Fin (7 / 10), hi_actionable = True,
                   hi_recommendation =
                     Some ''Focus on sleep quality factors like environment, routine, and stress management.'',
                   hi_data = MismatchData qualityDurationCorr\<rparr>]
            else []))"

definition trend_word :: "trend \<Rightarrow> string" where
  "trend_word t = (case t of Increasing \<Rightarrow> ''increasing'' | Decreasing \<Rightarrow> ''decreasing'' | Stable \<Rightarrow> ''stable'')"

definition getTrendRecommendation :: "string \<Rightarrow> trend \<Rightarrow> string" where
  "getTrendRecommendation m t =
     (if m = ''sleep_duration'' then
        (case t of
           Increasing \<Rightarrow> ''Great! You're getting more sleep. Continue this positive trend.''
         | Decreasing \<Rightarrow> ''Your sleep duration is declining. Consider earlier bedtimes or better sleep hygiene.''
         | Stable \<Rightarrow> ''Your sleep duration is consistent. Maintain this healthy pattern.'')
      else if m = ''sleep_quality'' then
        (case t of
           Increasing \<Rightarrow> ''Excellent! Your sleep quality is improving. Keep up the good habits.''
         | Decreasing \<Rightarrow> ''Your sleep quality is declining. Check your sleep environment and routine.''
         | Stable \<Rightarrow> ''Your sleep quality is stable. Consider ways to optimize further.'')
      else if m = ''mood'' then
        (case t of
           Increasing \<Rightarrow> ''Your mood is improving! Continue activities that boost your wellbeing.''
         | Decreasing \<Rightarrow> ''Your mood is declining. Consider stress management and self-care activities.''
         | Stable \<Rightarrow> ''Your mood is stable. Look for opportunities to enhance your daily happiness.'')
      else if m = ''stress'' then
        (case t of
           Increasing \<Rightarrow> ''Your stress levels are rising. Consider relaxation techniques and time management.''
         | Decreasing \<Rightarrow> ''Great job managing stress! Continue your stress-reduction strategies.''
         | Stable \<Rightarrow> ''Your stress levels are stable. Consider proactive stress management.'')
      else if m = ''gi_flare'' then
        (case t of
           Increasing \<Rightarrow> ''GI symptoms are worsening. Review your diet and stress management.''
         | Decreasing \<Rightarrow> ''Your GI symptoms are improving! Continue your current approach.''
         | Stable \<Rightarrow> ''GI symptoms are stable. Consider dietary or lifestyle optimizations.'')
      else if m = ''skin_flare'' then
        (case t of
           Increasing \<Rightarrow> ''Skin flares are increasing. Check triggers like stress, diet, or environment.''
         | Decreasing \<Rightarrow> ''Your skin is improving! Continue your current skincare routine.''
         | Stable \<Rightarrow> ''Skin condition is stable. Consider preventive measures.'')
      else if m = ''migraine'' then
        (case t of
           Increasing \<Rightarrow> ''Migraines are becoming more frequent. Track triggers and consider prevention.''
         | Decreasing \<Rightarrow> ''Migraines are decreasing! Continue your current management approach.''
         | Stable \<Rightarrow> ''Migraine frequency is stable. Focus on trigger identification and prevention.'')
      else ''Continue monitoring this metric for better insights.'')"

text \<open>The one insight that \<^verbatim>\<open>CorrelationsService.generateInsights\<close> gives below 7 entries.\<close>

definition need_more_data :: "nat \<Rightarrow> health_insight" where
  "need_more_data entriesCount =
     \<lparr>hi_type = Pattern, hi_title = ''Need More Data'',
      hi_description =
        ''Track your health data for at least a week to see meaningful patterns and correlations.'',
      hi_confidence = Fin 1, hi_actionable = True,
      hi_recommendation = Some ''Continue logging daily to unlock personalized insights.'',
      hi_data = EntriesCount entriesCount\<rparr>"

definition correlation_insights :: "sleep_correlation list \<Rightarrow> health_insight list" where
  "correlation_insights correlations =
     map (\<lambda>corr.
            \<lparr>hi_type = Correlation,
             hi_title = sleepMetric corr @ '' & '' @ symptomMetric corr,
             hi_description = sc_description corr,
             hi_confidence = js_abs (correlation corr), hi_actionable = True,
             hi_recommendation = Some (actionableInsight corr),
             hi_data = CorrelationData corr\<rparr>)
       (filter (\<lambda>corr. js_gt (js_abs (correlation corr)) (Fin (3 / 10))) correlations)"

definition trend_insights :: "health_entry_schema list \<Rightarrow> string list \<Rightarrow> health_insight list" where
  "trend_insights entries metrics =
     concat (map (\<lambda>m.
       case analyzeTrends entries m 30 of
         None \<Rightarrow> []
       | Some t \<Rightarrow>
           if js_gt (changeRate t) (Fin 10)
           then [\<lparr>hi_type = Trend,
                  hi_title = toUpperCase (replace_first CHR ''_'' CHR '' '' m) @ '' Trend'',
                  hi_description = ''Your '' @ replace_first CHR ''_'' CHR '' '' m @ '' is '' @
                    trend_word (trend t) @ '' by '' @ toFixed 1 (changeRate t) @
                    ''% over the last '' @ period t,
                  hi_confidence = js_sub (Fin 1) (significance t), hi_actionable = True,
                  hi_recommendation = Some (getTrendRecommendation m (trend t)),
                  hi_data = TrendData t\<rparr>]
           else []) metrics)"

definition CorrelationsService_generateInsights :: "health_entry_schema list \<Rightarrow> health_insight list" where
  "CorrelationsService_generateInsights entries =
     (if length entries < 7 then [need_more_data (length entries)]
      else
        let correlations = analyzeSleepCorrelations entries;
            metrics = [''sleep_duration'', ''sleep_quality'', ''mood'', ''stress'', ''gi_flare'',
                       ''skin_flare'', ''migraine''];
            sleepPatterns = CorrelationsService_analyzeSleepPatterns entries;
            insights = correlation_insights correlations @ trend_insights entries metrics @
                       sleepPatterns
        in js_sort (\<lambda>a b. js_sub (hi_confidence b) (hi_confidence a)) insights)"

text \<open>The insights service (its \<^verbatim>\<open>Insight\<close> is a record of its own).\<close>

datatype insight_kind = SleepInsight | MoodInsight | StressInsight | SymptomsInsight | CorrelationInsight

datatype priority = Low | Medium | High

datatype insight_category = Tip | Warning | AchievementNote | CorrelationNote

record insight =
  insight_id :: string
  insight_kind :: insight_kind
  insight_title :: string
  insight_description :: string
  insight_actionable :: bool
  insight_priority :: priority
  insight_confidence :: real
  insight_recommendations :: "string list option"
  insight_category :: insight_category

definition InsightsService_analyzeSleepPatterns :: "health_entry list \<Rightarrow> insight list" where
  "InsightsService_analyzeSleepPatterns entries =
     (let sleepData = filter (\<lambda>entry. case entry_sleep entry of
                                         None \<Rightarrow> False
                                       | Some s \<Rightarrow> duration_hours s \<noteq> 0 \<and> quality_score s \<noteq> 0) entries
      in if length sleepData < 7 then []
         else
           let durations = map (\<lambda>entry. duration_hours (the (entry_sleep entry))) sleepData;
               avgDuration = sum_list durations / real (length durations)
           in if avgDuration < 65 / 10
              then [\<lparr>insight_id = ''sleep_duration_low'', insight_kind = SleepInsight,
                     insight_title = ''Sleep Duration Alert'',
                     insight_description = ''Your average sleep duration is '' @
                       toFixed 1 (Fin avgDuration) @
                       '' hours, which is below the recommended 7-9 hours.'',
                     insight_actionable = True, insight_priority = High,
                     insight_confidence = 9 / 10,
                     insight_recommendations =
                       Some [''Try going to bed 30 minutes earlier'',
                             ''Create a consistent bedtime routine'',
                             ''Avoid screens 1 hour before bed'',
                             ''Keep your bedroom cool and dark''],
                     insight_category = Warning\<rparr>]
              else [])"

definition analyzeMoodTrends :: "health_entry list \<Rightarrow> insight list" where
  "analyzeMoodTrends entries =
     (let moodData = filter (\<lambda>entry. case entry_mood entry of
                                        None \<Rightarrow> False
                                      | Some m \<Rightarrow> mood_score m \<noteq> 0) entries
      in if length moodData < 7 then []
         else
           let moods = map (\<lambda>entry. mood_score (the (entry_mood entry))) moodData;
               avgMood = sum_list moods / real (length moods);
               recentMood = sum_list (slice_last 7 moods) / 7
           in if recentMood < avgMood - 15 / 10
              then [\<lparr>insight_id = ''mood_declining'', insight_kind = MoodInsight,
                     insight_title = ''Mood Trend Alert'',
                     insight_description = ''Your mood has declined from '' @
                       toFixed 1 (Fin avgMood) @ '' to '' @ toFixed 1 (Fin recentMood) @
                       '' over the past week.'',
                     insight_actionable = True, insight_priority = High,
                     insight_confidence = 8 / 10,
                     insight_recommendations =
                       Some [''Consider talking to a mental health professional'',
                             ''Try daily gratitude journaling'',
                             ''Increase physical activity'',
                             ''Connect with friends and family''],
                     insight_category = Warning\<rparr>]
              else [])"

definition analyzeStressPatterns :: "health_entry list \<Rightarrow> insight list" where
  "analyzeStressPatterns entries =
     (let stressData = filter (\<lambda>entry. case entry_mood entry of
                                          None \<Rightarrow> False
                                        | Some m \<Rightarrow> stress_score m \<noteq> 0) entries
      in if length stressData < 7 then []
         else
           let stressLevels = map (\<lambda>entry. stress_score (the (entry_mood entry))) stressData;
               avgStress = sum_list stressLevels / real (length stressLevels)
           in if 7 < avgStress
              then [\<lparr>insight_id = ''high_stress'', insight_kind = StressInsight,
                     insight_title = ''High Stress Levels'',
                     insight_description = ''Your average stress level is '' @
                       toFixed 1 (Fin avgStress) @ ''/10, which is quite high.'',
                     insight_actionable = True, insight_priority = High,
                     insight_confidence = 9 / 10,
                     insight_recommendations =
                       Some [''Practice deep breathing exercises'',
                             ''Try progressive muscle relaxation'',
                             ''Consider stress management therapy'',
                             ''Identify and address stress sources''],
                     insight_category = Warning\<rparr>]
              else [])"

definition priorityOrder :: "priority \<Rightarrow> real" where
  "priorityOrder p = (case p of High \<Rightarrow> 3 | Medium \<Rightarrow> 2 | Low \<Rightarrow> 1)"

text \<open>
  \<^verbatim>\<open>InsightsService.generateInsights\<close>: the insights, and the caller's entry array as
  the call leaves it.
\<close>

definition InsightsService_generateInsights :: "health_entry list \<Rightarrow> insight list \<times> health_entry list" where
  "InsightsService_generateInsights healthData =
     (if length healthData < 7 then ([], healthData)
      else
        let sortedData = sort_oldest_first healthData;
            insights = InsightsService_analyzeSleepPatterns sortedData @
                       analyzeMoodTrends sortedData @ analyzeStressPatterns sortedData
        in (js_sort (\<lambda>a b.
              let priorityDiff = priorityOrder (insight_priority b) - priorityOrder (insight_priority a)
              in if priorityDiff \<noteq> 0 then Fin priorityDiff
                 else Fin (insight_confidence b - insight_confidence a)) insights,
            sortedData))"


text \<open>A host at a fixed offset from UTC, in milliseconds: no daylight-saving time.\<close>

definition fixed_offset :: "int \<Rightarrow> zone" where
  "fixed_offset c = \<lparr>offset_at_utc = (\<lambda>t. c), offset_at_local = (\<lambda>t. c)\<rparr>"

text \<open>
  US Eastern time in 2024: four hours behind UTC from 10 March, 07:00 UTC, to
  3 November, 06:00 UTC (local wall time from 03:00 on 10 March to 02:00 on 3 November),
  five hours behind otherwise.
\<close>

definition us_eastern_2024 :: zone where
  "us_eastern_2024 =
     \<lparr>offset_at_utc = (\<lambda>t. if getTime (ymd 2024 3 10) + 7 * 3600000 \<le> t \<and>
                              t < getTime (ymd 2024 11 3) + 6 * 3600000
                           then - 4 * 3600000 else - 5 * 3600000),
      offset_at_local = (\<lambda>t. if getTime (ymd 2024 3 10) + 3 * 3600000 \<le> t \<and>
                                t < getTime (ymd 2024 11 3) + 2 * 3600000
                             then - 4 * 3600000 else - 5 * 3600000)\<rparr>"

text \<open>Entries on 1, 2 and 4 November 2024, none on 3 November; and noon UTC on 4 November.\<close>

definition november_entries :: "health_entry list" where
  "november_entries =
     [scored_entry (ymd 2024 11 4) 7 6 4, scored_entry (ymd 2024 11 2) 7 6 4,
      scored_entry (ymd 2024 11 1) 7 6 4]"

definition november_4_noon :: int where
  "november_4_noon = getTime (ymd 2024 11 4) + 12 * 3600000"

section \<open>Properties of the sleep-duration derivation\<close>

lemmas num_eval = js_Number_def trim_def is_space_def parse_unsigned_decimal_def is_digit_def
  digit_val_def digits_val_def parse_exponent_def is_digits_def pow10_def parse_radix_def
  radix_digit_def Let_def

lemmas dur_eval = calculateSleepDuration_def durationMinutes_def time_parts_def part_num_def
  js_sub_def round2_def screen_calculateSleepDuration_def logEntry_duration_hours_def

lemma digit_not_special:
  "is_digit c \<Longrightarrow> \<not> is_space c \<and> c \<noteq> CHR ''x'' \<and> c \<noteq> CHR ''X'' \<and> c \<noteq> CHR ''o'' \<and> c \<noteq> CHR ''O''
     \<and> c \<noteq> CHR ''b'' \<and> c \<noteq> CHR ''B'' \<and> c \<noteq> CHR ''+'' \<and> c \<noteq> CHR ''-'' \<and> c \<noteq> CHR ''I'' \<and> c \<noteq> CHR '':''"
  by (auto simp: is_digit_def is_space_def)

lemma js_Number_two_digits:
  assumes "is_digit a" "is_digit b"
  shows "js_Number [a, b] = Fin (real (10 * digit_val a + digit_val b))"
  using assms digit_not_special[of a] digit_not_special[of b]
  by (simp add: js_Number_def trim_def parse_unsigned_decimal_def parse_exponent_def
      digits_val_def pow10_def)

lemma time_parts_HHMM:
  assumes "is_HHMM s"
  shows "\<exists>h m. h \<le> 23 \<and> m \<le> 59 \<and> time_parts s = [Fin (real h), Fin (real m)] \<and>
           clock_minutes s = 60 * int h + int m"
proof -
  obtain h1 h2 c m1 m2 where s: "s = [h1, h2, c, m1, m2]"
    using assms by (cases s rule: is_HHMM.cases) simp_all
  from assms s have d: "is_digit h1" "is_digit h2" "is_digit m1" "is_digit m2" "c = CHR '':''"
    and r: "10 * digit_val h1 + digit_val h2 \<le> 23" "10 * digit_val m1 + digit_val m2 \<le> 59"
    by simp_all
  have "time_parts s = [js_Number [h1, h2], js_Number [m1, m2]]"
    using d digit_not_special[of h1] digit_not_special[of h2]
      digit_not_special[of m1] digit_not_special[of m2]
    by (simp add: s time_parts_def)
  then have "time_parts s = [Fin (real (10 * digit_val h1 + digit_val h2)),
                             Fin (real (10 * digit_val m1 + digit_val m2))]"
    using d by (simp add: js_Number_two_digits)
  moreover have "clock_minutes s =
      60 * int (10 * digit_val h1 + digit_val h2) + int (10 * digit_val m1 + digit_val m2)"
    by (simp add: s)
  ultimately show ?thesis using r by blast
qed

lemma durationMinutes_HHMM:
  assumes "is_HHMM s" "is_HHMM e"
  shows "durationMinutes s e = Fin (real_of_int (wrapped_minutes s e)) \<and> 0 \<le> wrapped_minutes s e"
proof -
  obtain h m where s: "h \<le> 23" "m \<le> 59" "time_parts s = [Fin (real h), Fin (real m)]"
      "clock_minutes s = 60 * int h + int m"
    using time_parts_HHMM[OF assms(1)] by blast
  obtain h' m' where e: "h' \<le> 23" "m' \<le> 59" "time_parts e = [Fin (real h'), Fin (real m')]"
      "clock_minutes e = 60 * int h' + int m'"
    using time_parts_HHMM[OF assms(2)] by blast
  have lt: "(real h' * 60 + real m' < real h * 60 + real m) = (clock_minutes e < clock_minutes s)"
  proof -
    have "real h' * 60 + real m' = real_of_int (clock_minutes e)"
      "real h * 60 + real m = real_of_int (clock_minutes s)"
      by (simp_all add: s e)
    then show ?thesis by (simp only: of_int_less_iff)
  qed
  have "0 \<le> wrapped_minutes s e"
    using s e by (simp add: wrapped_minutes_def)
  moreover have "durationMinutes s e = Fin (real_of_int (wrapped_minutes s e))"
    unfolding durationMinutes_def Let_def part_num_def s(3) e(3)
    by (simp add: lt js_sub_def wrapped_minutes_def s(4) e(4))
  ultimately show ?thesis by simp
qed

text \<open>
  C8. For well-formed \<^verbatim>\<open>HH:MM\<close> start and end times the derived duration is a finite
  number, at least 0: it is the difference in minutes, with 1440 added when the end is
  earlier than the start, divided by 60 (and rounded to two decimals by the screen and by
  \<^verbatim>\<open>logEntry\<close>). In particular the duration from 23:00 to 07:00 is 8.
\<close>

theorem sleep_duration_wellformed:
  assumes "is_HHMM s" "is_HHMM e"
  shows "calculateSleepDuration s e = Fin (real_of_int (wrapped_minutes s e) / 60) \<and>
         0 \<le> real_of_int (wrapped_minutes s e) / 60 \<and>
         screen_calculateSleepDuration s e =
           Fin (real_of_int \<lfloor>real_of_int (wrapped_minutes s e) / 60 * 100 + 1 / 2\<rfloor> / 100) \<and>
         logEntry_duration_hours s e = screen_calculateSleepDuration s e \<and>
         0 \<le> real_of_int \<lfloor>real_of_int (wrapped_minutes s e) / 60 * 100 + 1 / 2\<rfloor> / 100 \<and>
         calculateSleepDuration ''23:00'' ''07:00'' = Fin 8 \<and>
         screen_calculateSleepDuration ''23:00'' ''07:00'' = Fin 8"
proof -
  have d: "durationMinutes s e = Fin (real_of_int (wrapped_minutes s e))"
    and n: "0 \<le> wrapped_minutes s e"
    using durationMinutes_HHMM[OF assms] by simp_all
  have c: "calculateSleepDuration s e = Fin (real_of_int (wrapped_minutes s e) / 60)"
    by (simp add: calculateSleepDuration_def d)
  have r: "screen_calculateSleepDuration s e =
           Fin (real_of_int \<lfloor>real_of_int (wrapped_minutes s e) / 60 * 100 + 1 / 2\<rfloor> / 100)"
    by (simp add: screen_calculateSleepDuration_def round2_def d)
  have l: "logEntry_duration_hours s e = screen_calculateSleepDuration s e"
    by (simp add: logEntry_duration_hours_def screen_calculateSleepDuration_def
        calculateSleepDuration_def)
  have p: "0 \<le> real_of_int \<lfloor>real_of_int (wrapped_minutes s e) / 60 * 100 + 1 / 2\<rfloor> / 100"
    using n by simp
  have x: "calculateSleepDuration ''23:00'' ''07:00'' = Fin 8"
    by (simp add: num_eval dur_eval)
  have y: "screen_calculateSleepDuration ''23:00'' ''07:00'' = Fin 8"
    by (simp add: num_eval dur_eval)
  show ?thesis using c r l p x y n by simp
qed

theorem sleep_duration_wellformed_witness:
  "is_HHMM ''22:30'' \<and> is_HHMM ''06:15'' \<and> wrapped_minutes ''22:30'' ''06:15'' = 465 \<and>
   calculateSleepDuration ''22:30'' ''06:15'' = Fin (31 / 4) \<and>
   screen_calculateSleepDuration ''22:30'' ''06:15'' = Fin (31 / 4)"
proof -
  have a: "is_HHMM ''22:30''" and b: "is_HHMM ''06:15''"
    by (simp_all add: is_digit_def digit_val_def)
  have w: "wrapped_minutes ''22:30'' ''06:15'' = 465"
    by (simp add: wrapped_minutes_def digit_val_def)
  show ?thesis using a b w sleep_duration_wellformed[OF a b] by simp
qed

lemma js_nan_absorbs [simp]:
  "js_add x NaN = NaN" "js_mul x NaN = NaN" "js_div x NaN = NaN" "js_lt x NaN = False"
  by (cases x; simp)+

text \<open>
  C3, as the code has it. The derivation has no default: it never raises, and when the
  hour or the minute of either string is missing or does not parse as a number, the result
  is \<^verbatim>\<open>NaN\<close>, not 0, in the service, in the stored \<^verbatim>\<open>duration_hours\<close> and on the
  screen.
\<close>

theorem sleep_duration_malformed_is_nan:
  assumes "part_num (time_parts s) 0 = NaN \<or> part_num (time_parts s) 1 = NaN \<or>
           part_num (time_parts e) 0 = NaN \<or> part_num (time_parts e) 1 = NaN"
  shows "calculateSleepDuration s e = NaN \<and> logEntry_duration_hours s e = NaN \<and>
         screen_calculateSleepDuration s e = NaN"
proof -
  have "durationMinutes s e = NaN"
    using assms unfolding durationMinutes_def Let_def js_sub_def
    by (elim disjE) simp_all
  then show ?thesis
    by (simp add: calculateSleepDuration_def logEntry_duration_hours_def
        screen_calculateSleepDuration_def round2_def)
qed

theorem sleep_duration_malformed_is_nan_witness:
  "part_num (time_parts ''7am'') 1 = NaN \<and> calculateSleepDuration ''23:00'' ''7am'' = NaN \<and>
   screen_calculateSleepDuration ''23:00'' ''7am'' = NaN"
proof -
  have a: "part_num (time_parts ''7am'') 1 = NaN"
    by (simp add: time_parts_def part_num_def)
  show ?thesis using a sleep_duration_malformed_is_nan[of "''23:00''" "''7am''"] by simp
qed

text \<open>
  The claim as stated fails: the malformed pair \<^verbatim>\<open>"bedtime"\<close>, \<^verbatim>\<open>"7am"\<close> gives
  \<^verbatim>\<open>NaN\<close>, which is not 0.
\<close>

theorem sleep_duration_malformed_counterexample:
  "calculateSleepDuration ''bedtime'' ''7am'' = NaN \<and>
   calculateSleepDuration ''bedtime'' ''7am'' \<noteq> Fin 0 \<and>
   screen_calculateSleepDuration ''bedtime'' ''7am'' \<noteq> Fin 0"
  by (simp add: num_eval dur_eval)

section \<open>Properties of the Pearson correlation\<close>



















section \<open>Properties of the trend analysis\<close>














text \<open>
  Where the mean is 0 the rate is not a number: a symptom that is 0 on every day has
  \<^verbatim>\<open>changeRate\<close> \<^verbatim>\<open>NaN\<close> and is classified as decreasing.
\<close>

lemma analyzeTrends_zero_mean:
  "map_option trend (analyzeTrends falling ''gi_flare'' 30) = Some Decreasing \<and>
   map_option changeRate (analyzeTrends falling ''gi_flare'' 30) = Some NaN"
  by (simp add: analyzeTrends_def falling_def sample_entry_def slice_last_def metric_value_def
      trend_rate_def trend_slope_def js_sum_def sum_products_def sum_squares_def js_sub_def
      js_gt_def inf_of_sign_def upt_rec Let_def)


section \<open>Level and experience\<close>

text \<open>
  C9. For every entry list the experience is 10 times the number of entries and the level
  is the experience divided by 100, rounded down, plus 1, in the statistics that
  \<^verbatim>\<open>calculateStats\<close> computes and \<^verbatim>\<open>updateStats\<close> returns; 9 entries give level 1
  and 10 entries level 2.
\<close>

theorem level_from_experience:
  "experience (fst (calculateStats z now svc healthData)) = 10 * int (length healthData) \<and>
   level (fst (calculateStats z now svc healthData)) =
     experience (fst (calculateStats z now svc healthData)) div 100 + 1 \<and>
   experience (fst (updateStats z now svc healthData)) = 10 * int (length healthData) \<and>
   level (fst (updateStats z now svc healthData)) = 10 * int (length healthData) div 100 + 1 \<and>
   level (fst (calculateStats z now svc (replicate 9 e))) = 1 \<and>
   level (fst (calculateStats z now svc (replicate 10 e))) = 2"
  by (simp add: calculateStats_def updateStats_def Let_def split: prod.splits)

section \<open>Unlocking is monotonic\<close>

lemma check_badge_unlocked:
  "isUnlocked b \<Longrightarrow> check_badge now stats b healthData = (b, False, healthData)"
  by (simp add: check_badge_def)

lemma checkBadges_Cons_fst:
  "fst (checkBadges now stats (b # bs) healthData) =
   fst (check_badge now stats b healthData) #
   fst (checkBadges now stats bs (snd (snd (check_badge now stats b healthData))))"
  by (simp add: Let_def split: prod.splits)

lemma checkBadges_length:
  "length (fst (checkBadges now stats bs healthData)) = length bs"
  by (induction bs arbitrary: healthData) (simp_all add: checkBadges_Cons_fst del: checkBadges.simps(2))

lemma checkBadges_unlocked_nth:
  "i < length bs \<Longrightarrow> isUnlocked (bs ! i) \<Longrightarrow>
   fst (checkBadges now stats bs healthData) ! i = bs ! i"
proof (induction bs arbitrary: i healthData)
  case Nil
  then show ?case by simp
next
  case (Cons b bs)
  show ?case
  proof (cases i)
    case 0
    with Cons.prems show ?thesis
      by (simp add: checkBadges_Cons_fst check_badge_unlocked del: checkBadges.simps(2))
  next
    case (Suc j)
    with Cons.prems have "fst (checkBadges now stats bs h) ! j = bs ! j" for h
      by (intro Cons.IH) simp_all
    with Suc show ?thesis
      by (simp add: checkBadges_Cons_fst del: checkBadges.simps(2))
  qed
qed

lemma check_achievement_unlocked:
  "achievement_isUnlocked a \<Longrightarrow> check_achievement now stats a = (a, False)"
  by (simp add: check_achievement_def)

lemma checkAchievements_unlocked_nth:
  "j < length as \<Longrightarrow> achievement_isUnlocked (as ! j) \<Longrightarrow>
   fst (checkAchievements now stats as) ! j = as ! j"
  by (simp add: checkAchievements_def check_achievement_unlocked)

lemma updateStats_badges:
  "service_badges (fst (snd (updateStats z now svc healthData))) =
   fst (checkBadges now (fst (calculateStats z now svc healthData)) (service_badges svc)
          (snd (calculateStats z now svc healthData)))"
  by (simp add: updateStats_def Let_def split: prod.splits)

lemma updateStats_achievements:
  "service_achievements (fst (snd (updateStats z now svc healthData))) =
   fst (checkAchievements now (fst (calculateStats z now svc healthData)) (service_achievements svc))"
  by (simp add: updateStats_def Let_def split: prod.splits)

text \<open>
  C6. A badge or an achievement that is unlocked before an evaluation is skipped by it:
  after \<^verbatim>\<open>updateStats\<close> on any entry list, at any instant, it is the same record, so
  it is still unlocked and its \<^verbatim>\<open>unlockedAt\<close> is unchanged; the same holds for
  \<^verbatim>\<open>checkBadges\<close> and \<^verbatim>\<open>checkAchievements\<close> on their own, with any statistics.
\<close>

theorem unlocked_stays_unlocked:
  "(i < length (service_badges svc) \<and> isUnlocked (service_badges svc ! i) \<longrightarrow>
      isUnlocked (service_badges (fst (snd (updateStats z now svc healthData))) ! i) \<and>
      unlockedAt (service_badges (fst (snd (updateStats z now svc healthData))) ! i) =
        unlockedAt (service_badges svc ! i) \<and>
      service_badges (fst (snd (updateStats z now svc healthData))) ! i = service_badges svc ! i \<and>
      fst (checkBadges now stats (service_badges svc) healthData) ! i = service_badges svc ! i) \<and>
   (j < length (service_achievements svc) \<and> achievement_isUnlocked (service_achievements svc ! j) \<longrightarrow>
      achievement_isUnlocked (service_achievements (fst (snd (updateStats z now svc healthData))) ! j) \<and>
      achievement_unlockedAt (service_achievements (fst (snd (updateStats z now svc healthData))) ! j) =
        achievement_unlockedAt (service_achievements svc ! j) \<and>
      service_achievements (fst (snd (updateStats z now svc healthData))) ! j =
        service_achievements svc ! j \<and>
      fst (checkAchievements now stats (service_achievements svc)) ! j = service_achievements svc ! j)"
  by (simp add: updateStats_badges updateStats_achievements checkBadges_unlocked_nth
      checkAchievements_unlocked_nth)

theorem unlocked_stays_unlocked_witness:
  "0 < length (service_badges service_with_unlocked) \<and>
   isUnlocked (service_badges service_with_unlocked ! 0) \<and>
   0 < length (service_achievements service_with_unlocked) \<and>
   achievement_isUnlocked (service_achievements service_with_unlocked ! 0) \<and>
   unlockedAt (service_badges (fst (snd (updateStats utc_zone 5000 service_with_unlocked two_days))) ! 0)
     = Some 1000 \<and>
   isUnlocked (service_badges (fst (snd (updateStats utc_zone 5000 service_with_unlocked two_days))) ! 0) \<and>
   achievement_unlockedAt
     (service_achievements (fst (snd (updateStats utc_zone 5000 service_with_unlocked two_days))) ! 0)
     = Some 1000"
proof -
  have a: "0 < length (service_badges service_with_unlocked) \<and>
           isUnlocked (service_badges service_with_unlocked ! 0)"
    by (simp add: service_with_unlocked_def new_badge_def)
  have b: "0 < length (service_achievements service_with_unlocked) \<and>
           achievement_isUnlocked (service_achievements service_with_unlocked ! 0)"
    by (simp add: service_with_unlocked_def new_achievement_def)
  have c: "unlockedAt (service_badges service_with_unlocked ! 0) = Some 1000"
    by (simp add: service_with_unlocked_def new_badge_def)
  have d: "achievement_unlockedAt (service_achievements service_with_unlocked ! 0) = Some 1000"
    by (simp add: service_with_unlocked_def new_achievement_def)
  show ?thesis
    using a b c d
      unlocked_stays_unlocked[of 0 service_with_unlocked utc_zone 5000 two_days _ 0]
    by simp
qed

section \<open>Properties of the gamification service on concrete data\<close>

lemmas entry_eval = two_days_def two_weeks_def scored_entry_def ymd_def getTime_def msPerDay_def
  sort_oldest_first_def sort_newest_first_def js_sort_def js_gt_def

lemma two_days_newest_first: "sort_newest_first two_days = rev two_days"
  by (simp add: entry_eval)

lemma sort_two_weeks: "sort_oldest_first (two_weeks f a b) = two_weeks f a b"
  by (simp add: entry_eval)

lemma sort_rev_two_weeks: "sort_oldest_first (rev (two_weeks f a b)) = two_weeks f a b"
  by (simp add: entry_eval)

lemma two_days_changed: "rev two_days \<noteq> two_days"
  by (simp add: entry_eval)

lemma rev_two_weeks_changed: "two_weeks (scored_entry 0 7 6) 4 4 \<noteq> rev (two_weeks (scored_entry 0 7 6) 4 4)"
  by (simp add: entry_eval)

lemma checkImprovement_short:
  "length healthData < 14 \<Longrightarrow> checkImprovement healthData i = (False, healthData)"
  by (simp add: checkImprovement_def)

lemma check_badge_short:
  "length healthData < 14 \<Longrightarrow> snd (snd (check_badge now stats b healthData)) = healthData"
  by (simp add: check_badge_def checkImprovement_short Let_def)

lemma checkBadges_short:
  "length healthData < 14 \<Longrightarrow> snd (snd (checkBadges now stats bs healthData)) = healthData"
proof (induction bs arbitrary: healthData)
  case Nil
  then show ?case by simp
next
  case (Cons b bs)
  have "snd (snd (checkBadges now stats (b # bs) healthData)) =
        snd (snd (checkBadges now stats bs (snd (snd (check_badge now stats b healthData)))))"
    by (simp add: Let_def split: prod.splits)
  then show ?case using Cons by (simp add: check_badge_short)
qed

lemma calculateStreaks_array: "snd (calculateStreaks z now healthData) = sort_newest_first healthData"
  by (simp add: calculateStreaks_def Let_def)

lemma length_js_sort: "length (js_sort cmp xs) = length xs"
proof -
  have "length (insert_by cmp x ys) = Suc (length ys)" for x ys
    by (induction ys) simp_all
  then show ?thesis
    unfolding js_sort_def by (induction xs) simp_all
qed

lemma updateStats_array_short:
  assumes "length healthData < 14"
  shows "snd (snd (updateStats z now svc healthData)) = sort_newest_first healthData"
proof -
  have a: "snd (calculateStats z now svc healthData) = sort_newest_first healthData"
    using assms
    by (simp add: calculateStats_def calculateImprovementTrend_def calculateStreaks_array
        Let_def split: prod.splits)
      (metis calculateStreaks_array snd_conv)
  have b: "length (sort_newest_first healthData) < 14"
    using assms by (simp add: sort_newest_first_def length_js_sort)
  have "snd (snd (updateStats z now svc healthData)) =
        snd (snd (checkBadges now (fst (calculateStats z now svc healthData)) (service_badges svc)
                    (snd (calculateStats z now svc healthData))))"
    by (simp add: updateStats_def Let_def split: prod.splits)
  then show ?thesis
    by (simp add: a checkBadges_short[OF b])
qed

text \<open>
  C2 fails on the code. \<^verbatim>\<open>healthData.sort(...)\<close> sorts the caller's array in place:
  after the streak calculation (and after \<^verbatim>\<open>updateStats\<close>) two entries given oldest
  first are newest first, and after the trend classification and the insight generation
  fourteen entries given newest first are oldest first.
\<close>

theorem sorting_reorders_callers_array:
  "snd (calculateStreaks utc_zone 0 two_days) = rev two_days \<and>
   snd (calculateStreaks utc_zone 0 two_days) \<noteq> two_days \<and>
   snd (snd (updateStats utc_zone 0 new_service two_days)) \<noteq> two_days \<and>
   snd (calculateImprovementTrend (rev (two_weeks (scored_entry 0 7 6) 4 4))) \<noteq>
     rev (two_weeks (scored_entry 0 7 6) 4 4) \<and>
   snd (InsightsService_generateInsights (rev (two_weeks (scored_entry 0 7 6) 4 4))) \<noteq>
     rev (two_weeks (scored_entry 0 7 6) 4 4)"
proof -
  have "snd (InsightsService_generateInsights (rev (two_weeks (scored_entry 0 7 6) 4 4))) =
      two_weeks (scored_entry 0 7 6) 4 4"
    by (simp add: InsightsService_generateInsights_def Let_def sort_rev_two_weeks)
      (simp add: two_weeks_def)
  moreover
  have "length two_days < 14" by (simp add: two_days_def)
  then have "snd (snd (updateStats utc_zone 0 new_service two_days)) = rev two_days"
    by (simp add: updateStats_array_short two_days_newest_first)
  moreover have "snd (calculateImprovementTrend (rev (two_weeks (scored_entry 0 7 6) 4 4))) =
      two_weeks (scored_entry 0 7 6) 4 4"
    by (simp add: calculateImprovementTrend_def Let_def sort_rev_two_weeks) (simp add: two_weeks_def)
  ultimately show ?thesis
    using two_days_changed rev_two_weeks_changed
    by (simp add: calculateStreaks_array two_days_newest_first)
qed

lemmas avg_eval = getAverageScore_def average_positive_def mood_of_def sleep_of_def stress_of_def
  or_zero_def slice_last_def js_slice_def rel_index_def

text \<open>
  C4 fails on the code at the boundary. The comparison is strict: a week whose average is
  exactly 2 points better than the week before (mood or sleep quality from 5 to 7, stress
  from 7 to 5) does not unlock the badge, although the badges are described as
  ``by 2+ points''.
\<close>

theorem improvement_by_exactly_two:
  "fst (checkImprovement (two_weeks (\<lambda>m. scored_entry 0 7 m 5) 5 7) ''mood_improvement'') = False \<and>
   fst (checkImprovement (two_weeks (\<lambda>q. scored_entry 0 q 6 5) 5 7) ''sleep_improvement'') = False \<and>
   fst (checkImprovement (two_weeks (\<lambda>s. scored_entry 0 7 6 s) 7 5) ''stress_reduction'') = False \<and>
   getAverageScore (slice_last 7 (two_weeks (\<lambda>m. scored_entry 0 7 m 5) 5 7)) ''mood_improvement'' = 7 \<and>
   getAverageScore (js_slice (- 14) (- 7) (two_weeks (\<lambda>m. scored_entry 0 7 m 5) 5 7)) ''mood_improvement'' = 5 \<and>
   \<not> isUnlocked (fst (check_badge now stats (initializeBadges ! 6)
                        (two_weeks (\<lambda>m. scored_entry 0 7 m 5) 5 7)))"
proof -
  have "fst (checkImprovement (two_weeks (\<lambda>m. scored_entry 0 7 m 5) 5 7) ''mood_improvement'') = False"
    unfolding checkImprovement_def Let_def sort_two_weeks
    by (simp add: two_weeks_def scored_entry_def avg_eval)
  then have "\<not> isUnlocked (fst (check_badge now stats (initializeBadges ! 6)
                        (two_weeks (\<lambda>m. scored_entry 0 7 m 5) 5 7)))"
    by (simp add: check_badge_def initializeBadges_def new_badge_def Let_def case_prod_beta)
  then show ?thesis
    unfolding checkImprovement_def Let_def sort_two_weeks
    by (simp add: two_weeks_def scored_entry_def avg_eval)
qed


section \<open>Properties of the insight generators\<close>

text \<open>
  C1, as the code has it. Below 7 entries \<^verbatim>\<open>CorrelationsService.generateInsights\<close>
  returns exactly one insight, ``Need More Data'', and \<^verbatim>\<open>InsightsService.generateInsights\<close>
  returns no insight at all; neither analyses the entries, and the insights service
  leaves the entry array as it is.
\<close>

theorem few_entries_insights:
  assumes "length entries < 7" and "length healthData < 7"
  shows "CorrelationsService_generateInsights entries = [need_more_data (length entries)] \<and>
         hi_title (need_more_data (length entries)) = ''Need More Data'' \<and>
         InsightsService_generateInsights healthData = ([], healthData)"
  using assms
  by (simp add: CorrelationsService_generateInsights_def InsightsService_generateInsights_def
      need_more_data_def)

theorem few_entries_insights_witness:
  "length falling < 7 \<and> length two_days < 7 \<and>
   CorrelationsService_generateInsights falling = [need_more_data 3] \<and>
   InsightsService_generateInsights two_days = ([], two_days)"
proof -
  have a: "length falling < 7" by (simp add: falling_def)
  have b: "length two_days < 7" by (simp add: two_days_def)
  have c: "length falling = 3" by (simp add: falling_def)
  show ?thesis using a b few_entries_insights[OF a b] by (simp add: c)
qed

text \<open>
  The claim as stated fails for the insights service: for two entries it returns the
  empty list, not a list of one insight.
\<close>

theorem few_entries_insights_counterexample:
  "length two_days < 7 \<and> fst (InsightsService_generateInsights two_days) = [] \<and>
   length (fst (InsightsService_generateInsights two_days)) \<noteq> 1"
  by (simp add: InsightsService_generateInsights_def two_days_def)

section \<open>Properties of the streak calculation\<close>

lemma setDate_previous_fixed: "setDate_previous (fixed_offset c) t = t - msPerDay"
  by (simp add: setDate_previous_def fixed_offset_def Let_def)

lemma getTime_previous: "getTime d - msPerDay = getTime (d - 1)"
  by (simp add: getTime_def algebra_simps)

lemma isoDate_getTime: "isoDate (getTime d) = d"
  by (simp add: isoDate_def getTime_def msPerDay_def)

lemma days_between: "(getTime a - getTime b) div msPerDay = a - b"
proof -
  have "getTime a - getTime b = (a - b) * msPerDay"
    by (simp add: getTime_def algebra_simps)
  then show ?thesis by (simp add: msPerDay_def)
qed

lemma currentStreak_loop_fixed:
  "\<exists>k. currentStreak_loop (fixed_offset c) sd fuel (getTime d) s = s + int k \<and>
       (\<forall>j<k. d - int j \<in> entry_date ` set sd)"
proof (induction fuel arbitrary: d s)
  case 0
  have "currentStreak_loop (fixed_offset c) sd 0 (getTime d) s = s + int 0 \<and>
        (\<forall>j<0. d - int j \<in> entry_date ` set sd)"
    by simp
  then show ?case by blast
next
  case (Suc fuel)
  show ?case
  proof (cases "d \<in> entry_date ` set sd")
    case True
    obtain k where k: "currentStreak_loop (fixed_offset c) sd fuel (getTime (d - 1)) (s + 1) =
        s + 1 + int k" "\<forall>j<k. d - 1 - int j \<in> entry_date ` set sd"
      using Suc.IH[of "d - 1" "s + 1"] by blast
    have run: "d - int j \<in> entry_date ` set sd" if "j < Suc k" for j
    proof (cases j)
      case 0
      then show ?thesis using True by simp
    next
      case (Suc i)
      with that k(2) have "d - 1 - int i \<in> entry_date ` set sd" by simp
      then show ?thesis using Suc by (simp add: algebra_simps)
    qed
    have "list_ex (\<lambda>entry. entry_date entry = d) sd"
      using True by (auto simp: list_ex_iff)
    then have "currentStreak_loop (fixed_offset c) sd (Suc fuel) (getTime d) s = s + int (Suc k)"
      by (simp add: isoDate_getTime setDate_previous_fixed getTime_previous k(1))
    with run show ?thesis by blast
  next
    case False
    then have "\<not> list_ex (\<lambda>entry. entry_date entry = d) sd"
      by (auto simp: list_ex_iff)
    then have "currentStreak_loop (fixed_offset c) sd (Suc fuel) (getTime d) s = s + int 0 \<and>
        (\<forall>j<0. d - int j \<in> entry_date ` set sd)"
      by (simp add: isoDate_getTime)
    then show ?thesis by blast
  qed
qed

lemma set_insert_by: "set (insert_by cmp x ys) = insert x (set ys)"
  by (induction ys) auto

lemma set_js_sort: "set (js_sort cmp xs) = set xs"
  by (induction xs) (simp_all add: js_sort_def set_insert_by)

lemma insert_by_newest_first:
  assumes "sorted_wrt (>) ys" and "x \<notin> set ys"
  shows "sorted_wrt (>) (insert_by (\<lambda>a b. Fin (real_of_int (getTime b - getTime a))) x ys)"
  using assms
proof (induction ys)
  case Nil
  then show ?case by simp
next
  case (Cons y ys)
  have step: "insert_by (\<lambda>a b. Fin (real_of_int (getTime b - getTime a))) x (y # ys) =
      (if x < y then y # insert_by (\<lambda>a b. Fin (real_of_int (getTime b - getTime a))) x ys
       else x # y # ys)"
    by (simp add: js_gt_def getTime_def msPerDay_def)
  show ?case
  proof (cases "x < y")
    case True
    from Cons have "sorted_wrt (>) (insert_by (\<lambda>a b. Fin (real_of_int (getTime b - getTime a))) x ys)"
      by simp
    with True Cons.prems show ?thesis
      unfolding step by (auto simp: set_insert_by)
  next
    case False
    with Cons.prems have "y < x" by auto
    with Cons.prems False show ?thesis
      unfolding step by auto
  qed
qed

lemma js_sort_newest_first:
  assumes "distinct xs"
  shows "sorted_wrt (>) (js_sort (\<lambda>a b. Fin (real_of_int (getTime b - getTime a))) xs)"
  using assms
proof (induction xs)
  case Nil
  then show ?case by (simp add: js_sort_def)
next
  case (Cons x xs)
  then have "sorted_wrt (>) (js_sort (\<lambda>a b. Fin (real_of_int (getTime b - getTime a))) xs)"
    and "x \<notin> set (js_sort (\<lambda>a b. Fin (real_of_int (getTime b - getTime a))) xs)"
    by (simp_all add: set_js_sort)
  then have "sorted_wrt (>) (insert_by (\<lambda>a b. Fin (real_of_int (getTime b - getTime a))) x
      (js_sort (\<lambda>a b. Fin (real_of_int (getTime b - getTime a))) xs))"
    by (rule insert_by_newest_first)
  then show ?case by (simp add: js_sort_def)
qed

lemma distinct_in_order_props:
  "distinct (distinct_in_order xs)" "set (distinct_in_order xs) = set xs"
  by (simp_all add: distinct_in_order_def)

lemma longestStreak_loop_bounds:
  assumes "sorted_wrt (>) ds" and "0 \<le> temp"
  shows "longest \<le> longestStreak_loop ds longest temp \<and>
         (\<forall>d k. 0 < k \<and> (\<forall>j. 0 \<le> j \<and> j < k \<longrightarrow> d - j \<in> set ds) \<longrightarrow>
                (if d = hd ds then temp + k else k) \<le> longestStreak_loop ds longest temp)"
  using assms
proof (induction ds longest temp rule: longestStreak_loop.induct)
  case (1 longest temp)
  have "False" if "0 < k" "\<forall>j. 0 \<le> j \<and> j < k \<longrightarrow> d - j \<in> set []" for d k :: int
    using that(1) that(2)[rule_format, of 0] by simp
  then show ?case by auto
next
  case (2 c longest temp)
  have "(if d = c then temp + k else k) \<le> max longest (temp + 1)"
    if "0 < k" "\<forall>j. 0 \<le> j \<and> j < k \<longrightarrow> d - j \<in> set [c]" for d k :: int
  proof -
    have "d = c" using that by force
    have "k = 1"
    proof (rule ccontr)
      assume "k \<noteq> 1"
      with that(1) have "0 \<le> (1::int) \<and> 1 < k" by simp
      with that(2) have "d - 1 \<in> set [c]" by blast
      with \<open>d = c\<close> show False by simp
    qed
    with \<open>d = c\<close> show ?thesis by simp
  qed
  then show ?case by simp
next
  case (3 c n rest longest temp)
  have cn: "n < c" and crest: "\<forall>x\<in>set rest. x < n" and tail: "sorted_wrt (>) (n # rest)"
    using "3.prems"(1) by auto
  have below: "x < c" if "x \<in> set (n # rest)" for x
    using that cn crest by auto
  define R where "R = longestStreak_loop (c # n # rest) longest temp"
  have in_tail: "\<forall>j. 0 \<le> j \<and> j < k \<longrightarrow> d - j \<in> set (n # rest)"
    if "d \<noteq> c" "\<forall>j. 0 \<le> j \<and> j < k \<longrightarrow> d - j \<in> set (c # n # rest)" "0 < k" for d k :: int
  proof (intro allI impI)
    fix j :: int
    assume j: "0 \<le> j \<and> j < k"
    from that(3) have "0 \<le> (0::int) \<and> 0 < k" by simp
    with that(2) have "d - 0 \<in> set (c # n # rest)" by blast
    with that(1) have "d < c" using below by auto
    with j have "d - j \<noteq> c" by simp
    with that(2) j show "d - j \<in> set (n # rest)" by auto
  qed
  show ?case
  proof (cases "c - n = 1")
    case True
    then have R: "R = longestStreak_loop (n # rest) longest (temp + 1)"
      by (simp add: R_def days_between)
    have IH: "longest \<le> R \<and>
         (\<forall>d k. 0 < k \<and> (\<forall>j. 0 \<le> j \<and> j < k \<longrightarrow> d - j \<in> set (n # rest)) \<longrightarrow>
                (if d = hd (n # rest) then temp + 1 + k else k) \<le> R)"
      unfolding R using "3.IH"(1)[OF refl _ tail] True "3.prems"(2) by (simp add: days_between)
    have IHb: "(if d = n then temp + 1 + k else k) \<le> R"
      if "0 < k" "\<forall>j. 0 \<le> j \<and> j < k \<longrightarrow> d - j \<in> set (n # rest)" for d k
    proof -
      from IH have "0 < k \<and> (\<forall>j. 0 \<le> j \<and> j < k \<longrightarrow> d - j \<in> set (n # rest)) \<longrightarrow>
          (if d = hd (n # rest) then temp + 1 + k else k) \<le> R"
        by blast
      with that have "(if d = hd (n # rest) then temp + 1 + k else k) \<le> R"
        by blast
      then show ?thesis by simp
    qed
    have "(if d = hd (c # n # rest) then temp + k else k) \<le> R"
      if k: "0 < k" and run: "\<forall>j. 0 \<le> j \<and> j < k \<longrightarrow> d - j \<in> set (c # n # rest)" for d k :: int
    proof (cases "d = c")
      case dc: True
      show ?thesis
      proof (cases "k = 1")
        case True
        have "\<forall>j. 0 \<le> j \<and> j < (1::int) \<longrightarrow> n - j \<in> set (n # rest)"
          by auto
        then have "(if n = n then temp + 1 + 1 else 1) \<le> R"
          by (rule IHb[of 1 n, OF zero_less_one])
        with True dc show ?thesis by simp
      next
        case False
        with k have k1: "0 < k - 1" by simp
        have "\<forall>j. 0 \<le> j \<and> j < k - 1 \<longrightarrow> n - j \<in> set (n # rest)"
        proof (intro allI impI)
          fix j :: int
          assume j: "0 \<le> j \<and> j < k - 1"
          then have "0 \<le> j + 1 \<and> j + 1 < k" by simp
          with run have "d - (j + 1) \<in> set (c # n # rest)" by blast
          moreover have "d - (j + 1) = n - j" using dc \<open>c - n = 1\<close> by simp
          moreover have "n - j \<noteq> c" using j cn by simp
          ultimately show "n - j \<in> set (n # rest)" by auto
        qed
        then have "(if n = n then temp + 1 + (k - 1) else k - 1) \<le> R"
          by (rule IHb[OF k1])
        with dc show ?thesis by simp
      qed
    next
      case False
      have "(if d = n then temp + 1 + k else k) \<le> R"
        by (rule IHb[OF k in_tail[OF False run k]])
      with False "3.prems"(2) show ?thesis by (simp split: if_splits)
    qed
    moreover have "longest \<le> R" using IH by simp
    ultimately show ?thesis unfolding R_def by blast
  next
    case False
    then have R: "R = longestStreak_loop (n # rest) (max longest (temp + 1)) 0"
      by (simp add: R_def days_between)
    have IH: "max longest (temp + 1) \<le> R \<and>
         (\<forall>d k. 0 < k \<and> (\<forall>j. 0 \<le> j \<and> j < k \<longrightarrow> d - j \<in> set (n # rest)) \<longrightarrow>
                (if d = hd (n # rest) then 0 + k else k) \<le> R)"
      unfolding R using "3.IH"(2)[OF refl _ tail] False by (simp add: days_between)
    have IHb: "k \<le> R"
      if "0 < k" "\<forall>j. 0 \<le> j \<and> j < k \<longrightarrow> d - j \<in> set (n # rest)" for d k
    proof -
      from IH have "0 < k \<and> (\<forall>j. 0 \<le> j \<and> j < k \<longrightarrow> d - j \<in> set (n # rest)) \<longrightarrow>
          (if d = hd (n # rest) then 0 + k else k) \<le> R"
        by blast
      with that have "(if d = hd (n # rest) then 0 + k else k) \<le> R"
        by blast
      then show ?thesis by (simp split: if_splits)
    qed
    have "(if d = hd (c # n # rest) then temp + k else k) \<le> R"
      if k: "0 < k" and run: "\<forall>j. 0 \<le> j \<and> j < k \<longrightarrow> d - j \<in> set (c # n # rest)" for d k :: int
    proof (cases "d = c")
      case dc: True
      have "k = 1"
      proof (rule ccontr)
        assume "k \<noteq> 1"
        with k have "0 \<le> (1::int) \<and> 1 < k" by simp
        with run have "d - 1 \<in> set (c # n # rest)" by blast
        with dc have "c - 1 \<in> set (n # rest)" by simp
        then have "c - 1 = n \<or> c - 1 \<in> set rest" by simp
        then show False
        proof
          assume "c - 1 = n"
          with False show False by simp
        next
          assume "c - 1 \<in> set rest"
          with crest have "c - 1 < n" by blast
          with cn show False by simp
        qed
      qed
      with dc IH show ?thesis by simp
    next
      case False
      have "k \<le> R"
        by (rule IHb[OF k in_tail[OF False run k]])
      with False show ?thesis by simp
    qed
    moreover have "longest \<le> R" using IH by simp
    ultimately show ?thesis unfolding R_def by blast
  qed
qed

text \<open>
  On a host whose offset from UTC is fixed, the walk back from today moves exactly one
  calendar day per round, and the streaks are ordered: the longest streak is at least the
  current streak, and at least 1 when there is an entry.
\<close>

theorem streaks_ordered_at_fixed_offset:
  "currentStreak (fst (calculateStreaks (fixed_offset c) now healthData))
     \<le> longestStreak (fst (calculateStreaks (fixed_offset c) now healthData)) \<and>
   (if healthData = [] then 0 else 1)
     \<le> longestStreak (fst (calculateStreaks (fixed_offset c) now healthData))"
proof (cases "healthData = []")
  case True
  then show ?thesis
    by (simp add: calculateStreaks_def sort_newest_first_def js_sort_def)
next
  case False
  define sd where "sd = sort_newest_first healthData"
  define ds where "ds = js_sort (\<lambda>a b. Fin (real_of_int (getTime b - getTime a)))
      (distinct_in_order (map entry_date sd))"
  have sd: "sd \<noteq> []"
    using False set_js_sort[of _ healthData] unfolding sd_def sort_newest_first_def
    by (metis set_empty)
  have ds_set: "set ds = entry_date ` set sd"
    by (simp add: ds_def set_js_sort distinct_in_order_props)
  have ds_sorted: "sorted_wrt (>) ds"
    unfolding ds_def by (rule js_sort_newest_first) (rule distinct_in_order_props)
  have ds_ne: "ds \<noteq> []"
    using sd ds_set by auto
  obtain k where k: "currentStreak_loop (fixed_offset c) sd 365 (getTime (isoDate now)) 0 = 0 + int k"
      "\<forall>j<k. isoDate now - int j \<in> entry_date ` set sd"
    using currentStreak_loop_fixed by blast
  have bounds: "0 \<le> longestStreak_loop ds 0 0 \<and>
         (\<forall>d k. 0 < k \<and> (\<forall>j. 0 \<le> j \<and> j < k \<longrightarrow> d - j \<in> set ds) \<longrightarrow>
                (if d = hd ds then 0 + k else k) \<le> longestStreak_loop ds 0 0)"
    by (rule longestStreak_loop_bounds[OF ds_sorted]) simp
  have cur: "int k \<le> longestStreak_loop ds 0 0"
  proof (cases "k = 0")
    case True
    then show ?thesis using bounds by simp
  next
    case False
    have "\<forall>j. 0 \<le> j \<and> j < int k \<longrightarrow> isoDate now - j \<in> set ds"
    proof (intro allI impI)
      fix j :: int
      assume "0 \<le> j \<and> j < int k"
      then have "nat j < k" "int (nat j) = j" by linarith+
      with k(2) have "isoDate now - int (nat j) \<in> entry_date ` set sd" by blast
      with \<open>int (nat j) = j\<close> show "isoDate now - j \<in> set ds" by (simp add: ds_set)
    qed
    moreover have "0 < int k" using False by simp
    ultimately have "(if isoDate now = hd ds then 0 + int k else int k) \<le> longestStreak_loop ds 0 0"
      using bounds by blast
    then show ?thesis by (simp split: if_splits)
  qed
  have one: "1 \<le> longestStreak_loop ds 0 0"
  proof -
    have "\<forall>j. 0 \<le> j \<and> j < (1::int) \<longrightarrow> hd ds - j \<in> set ds"
    proof (intro allI impI)
      fix j :: int
      assume "0 \<le> j \<and> j < 1"
      then have "j = 0" by simp
      then show "hd ds - j \<in> set ds" using ds_ne by simp
    qed
    moreover have "0 < (1::int)" by simp
    ultimately have "(if hd ds = hd ds then 0 + 1 else 1) \<le> longestStreak_loop ds 0 0"
      using bounds by blast
    then show ?thesis by simp
  qed
  have "fst (calculateStreaks (fixed_offset c) now healthData) =
      \<lparr>currentStreak = int k, longestStreak = longestStreak_loop ds 0 0,
       lastLogDate = Some (entry_date (hd sd)), streakType = Daily\<rparr>"
    using sd k(1) unfolding calculateStreaks_def Let_def sd_def[symmetric] ds_def[symmetric]
    by simp
  with cur one False show ?thesis by simp
qed


lemma currentStreak_loop_numeral:
  "currentStreak_loop z sortedData (numeral k) checkDate streak =
     (if list_ex (\<lambda>entry. entry_date entry = isoDate checkDate) sortedData
      then currentStreak_loop z sortedData (pred_numeral k) (setDate_previous z checkDate) (streak + 1)
      else streak)"
  by (simp add: numeral_eq_Suc Let_def)

lemma november_sorted: "sort_newest_first november_entries = november_entries"
  by (simp add: november_entries_def entry_eval)

lemma november_dates:
  "js_sort (\<lambda>a b. Fin (real_of_int (getTime b - getTime a)))
     (distinct_in_order (map entry_date november_entries)) =
   [ymd 2024 11 4, ymd 2024 11 2, ymd 2024 11 1]"
  by (simp add: november_entries_def scored_entry_def distinct_in_order_def ymd_def getTime_def
      msPerDay_def js_sort_def js_gt_def)

lemma november_longest:
  "longestStreak_loop [ymd 2024 11 4, ymd 2024 11 2, ymd 2024 11 1] 0 0 = 2"
  by (simp add: ymd_def getTime_def msPerDay_def)

lemma november_current_eastern:
  "currentStreak_loop us_eastern_2024 november_entries 365 (getTime (isoDate november_4_noon)) 0 = 3"
  by (simp add: currentStreak_loop_numeral november_entries_def scored_entry_def november_4_noon_def
      isoDate_def setDate_previous_def us_eastern_2024_def ymd_def getTime_def msPerDay_def Let_def)

lemma november_current_utc:
  "currentStreak_loop utc_zone november_entries 365 (getTime (isoDate november_4_noon)) 0 = 1"
  by (simp add: currentStreak_loop_numeral november_entries_def scored_entry_def november_4_noon_def
      isoDate_def setDate_previous_def utc_zone_def ymd_def getTime_def msPerDay_def Let_def)

text \<open>
  C10 fails on the code where the host's clock changes. \<^verbatim>\<open>setDate\<close> and
  \<^verbatim>\<open>getDate\<close> work in local time, \<^verbatim>\<open>toISOString\<close> in UTC: in US Eastern time the
  walk back from 4 November 2024 (00:00 UTC, 19:00 the day before in local standard time)
  lands on 2 November, 23:00 UTC (19:00 in local daylight time), and 3 November is never
  looked at. With entries on 1, 2 and 4 November the current streak is 3 and the longest
  streak is 2; in UTC the same entries give the current streak 1.
\<close>

theorem streak_across_clock_change:
  "currentStreak (fst (calculateStreaks us_eastern_2024 november_4_noon november_entries)) = 3 \<and>
   longestStreak (fst (calculateStreaks us_eastern_2024 november_4_noon november_entries)) = 2 \<and>
   \<not> currentStreak (fst (calculateStreaks us_eastern_2024 november_4_noon november_entries))
       \<le> longestStreak (fst (calculateStreaks us_eastern_2024 november_4_noon november_entries)) \<and>
   currentStreak (fst (calculateStreaks utc_zone november_4_noon november_entries)) = 1"
proof -
  have "november_entries \<noteq> []" by (simp add: november_entries_def)
  then show ?thesis
    unfolding calculateStreaks_def Let_def november_sorted november_dates november_longest
      november_current_eastern november_current_utc
    by simp
qed

end
